theory Spec2Isabelle
  imports Main "HOL-Library.AList"
begin

section \<open>JavaScript values\<close>

text \<open>
  The controller \<^verbatim>\<open>src/controller/device/v1/orderItemController.js\<close> works on
  JSON request bodies, on the values its collaborators return and on the errors they
  throw. A value is one of the JSON kinds or \<^verbatim>\<open>undefined\<close>. An object is the list of
  its own properties; it is read as a finite map (the first entry of a key counts), so
  the order of the keys carries no meaning. An array has its elements and, since a
  JavaScript array is an object, the named properties assigned to it (none after
  \<^verbatim>\<open>JSON.parse\<close>). Numbers are integers: the controller only tests a number for
  being zero and for being equal to 11000.
\<close>

datatype jsval =
    JUndefined
  | JNull
  | JBool bool
  | JNum int
  | JStr string
  | JArr "jsval list" "(string \<times> jsval) list"
  | JObj "(string \<times> jsval) list"

text \<open>\<^verbatim>\<open>if (v)\<close>, \<^verbatim>\<open>!v\<close>, \<^verbatim>\<open>a && b\<close>: the truthiness of a value.\<close>

fun truthy :: "jsval \<Rightarrow> bool" where
  "truthy JUndefined = False"
| "truthy JNull = False"
| "truthy (JBool b) = b"
| "truthy (JNum n) = (n \<noteq> 0)"
| "truthy (JStr s) = (s \<noteq> [])"
| "truthy (JArr xs ps) = True"
| "truthy (JObj kvs) = True"

text \<open>\<^verbatim>\<open>typeof v === 'object' && v !== null\<close>: arrays are objects too.\<close>

fun is_object :: "jsval \<Rightarrow> bool" where
  "is_object (JArr xs ps) = True"
| "is_object (JObj kvs) = True"
| "is_object v = False"

text \<open>\<^verbatim>\<open>Array.isArray(v)\<close>\<close>

fun isArray :: "jsval \<Rightarrow> bool" where
  "isArray (JArr xs ps) = True"
| "isArray v = False"

fun is_nullish :: "jsval \<Rightarrow> bool" where
  "is_nullish JUndefined = True"
| "is_nullish JNull = True"
| "is_nullish v = False"

subsection \<open>Errors\<close>

text \<open>
  A thrown error is an object with a name, an optional code and a message
  (\<^verbatim>\<open>error.name\<close>, \<^verbatim>\<open>error.code\<close>, \<^verbatim>\<open>error.message\<close>). The code is any value:
  absent (\<^verbatim>\<open>undefined\<close>), a number for the store's errors, a string for the
  runtime's system errors.
\<close>

record js_error =
  err_name :: string
  err_code :: jsval
  err_message :: string

text \<open>
  The runtime's \<^verbatim>\<open>TypeError\<close>, raised on a property access on \<^verbatim>\<open>undefined\<close> or
  \<^verbatim>\<open>null\<close>. The message texts are those of V8; no handler inspects them.
\<close>

definition TypeError :: "string \<Rightarrow> js_error" where
  "TypeError m = \<lparr>err_name = ''TypeError'', err_code = JUndefined, err_message = m\<rparr>"

definition nullish_name :: "jsval \<Rightarrow> string" where
  "nullish_name v = (if v = JNull then ''null'' else ''undefined'')"

definition quoted :: "string \<Rightarrow> string" where
  "quoted k = [CHR 0x27] @ k @ [CHR 0x27]"

subsection \<open>Own properties\<close>

text \<open>The decimal notation of an index; \<open>digit_char\<close> is applied to numbers below ten.\<close>

definition digit_char :: "nat \<Rightarrow> char" where
  "digit_char n = ''0123456789'' ! n"

function show_nat :: "nat \<Rightarrow> string" where
  "show_nat n = (if n < 10 then [digit_char n] else show_nat (n div 10) @ [digit_char (n mod 10)])"
  by pat_completeness auto
termination
  by (relation "measure (\<lambda>n. n)") auto

declare show_nat.simps [simp del]

text \<open>The keys \<^verbatim>\<open>"0"\<close>, \<^verbatim>\<open>"1"\<close>, ... of the elements of an array or a string.\<close>

definition indexed :: "'a list \<Rightarrow> (string \<times> 'a) list" where
  "indexed xs = zip (map show_nat [0 ..< length xs]) xs"

text \<open>
  The own enumerable string-keyed properties of a value, as object spread
  \<^verbatim>\<open>{ ...v }\<close> copies them: those of an object, the elements and then the named
  properties of an array, the characters of a string, nothing for any other value
  (spreading \<^verbatim>\<open>undefined\<close> or \<^verbatim>\<open>null\<close> does not throw).
\<close>

fun own_props :: "jsval \<Rightarrow> (string \<times> jsval) list" where
  "own_props (JObj kvs) = kvs"
| "own_props (JArr xs ps) = indexed xs @ ps"
| "own_props (JStr s) = indexed (map (\<lambda>c. JStr [c]) s)"
| "own_props v = []"

text \<open>\<^verbatim>\<open>{ k1: v1, ..., ...v }\<close>: the properties of \<open>v\<close> are defined one by one on the object built so far.\<close>

definition spread :: "(string \<times> jsval) list \<Rightarrow> jsval \<Rightarrow> (string \<times> jsval) list" where
  "spread acc v = fold (\<lambda>(k, x). AList.update k x) (own_props v) acc"

text \<open>
  The value of \<^verbatim>\<open>v.k\<close> for a \<open>v\<close> that is neither \<^verbatim>\<open>undefined\<close> nor \<^verbatim>\<open>null\<close>. It is
  used at the names the controller reads (\<^verbatim>\<open>id\<close>, \<^verbatim>\<open>ids\<close>, \<^verbatim>\<open>data\<close>, \<^verbatim>\<open>query\<close>,
  \<^verbatim>\<open>options\<close>, \<^verbatim>\<open>where\<close>, \<^verbatim>\<open>isCountOnly\<close>, \<^verbatim>\<open>filter\<close>, \<^verbatim>\<open>length\<close>). Of these
  only \<^verbatim>\<open>filter\<close> is inherited from a prototype, by an array: there \<^verbatim>\<open>v.filter\<close> is a
  function, which fails the test \<^verbatim>\<open>typeof v.filter === 'object'\<close> of its one reader as
  \<^verbatim>\<open>undefined\<close> does.
\<close>

fun prop_of :: "jsval \<Rightarrow> string \<Rightarrow> jsval" where
  "prop_of (JObj kvs) k = (case map_of kvs k of None \<Rightarrow> JUndefined | Some x \<Rightarrow> x)"
| "prop_of (JArr xs ps) k =
     (if k = ''length'' then JNum (int (length xs))
      else case map_of (indexed xs @ ps) k of None \<Rightarrow> JUndefined | Some x \<Rightarrow> x)"
| "prop_of (JStr s) k =
     (if k = ''length'' then JNum (int (length s))
      else case map_of (indexed (map (\<lambda>c. JStr [c]) s)) k of None \<Rightarrow> JUndefined | Some x \<Rightarrow> x)"
| "prop_of v k = JUndefined"

text \<open>\<^verbatim>\<open>v.k\<close>: a \<^verbatim>\<open>TypeError\<close> on \<^verbatim>\<open>undefined\<close> and \<^verbatim>\<open>null\<close>.\<close>

definition get_prop :: "jsval \<Rightarrow> string \<Rightarrow> js_error + jsval" where
  "get_prop v k =
     (if is_nullish v
      then Inl (TypeError (''Cannot read properties of '' @ nullish_name v @ '' (reading '' @ quoted k @ '')''))
      else Inr (prop_of v k))"

text \<open>
  \<^verbatim>\<open>delete v[k]\<close> for a name \<open>k\<close> that is not an index: a \<^verbatim>\<open>TypeError\<close> on
  \<^verbatim>\<open>undefined\<close> and \<^verbatim>\<open>null\<close>, nothing to delete on a primitive value.
\<close>

fun delete_prop :: "jsval \<Rightarrow> string \<Rightarrow> js_error + jsval" where
  "delete_prop JUndefined k = Inl (TypeError ''Cannot convert undefined or null to object'')"
| "delete_prop JNull k = Inl (TypeError ''Cannot convert undefined or null to object'')"
| "delete_prop (JObj kvs) k = Inr (JObj (AList.delete k kvs))"
| "delete_prop (JArr xs ps) k = Inr (JArr xs (AList.delete k ps))"
| "delete_prop v k = Inr v"

text \<open>
  \<^verbatim>\<open>v.k = x\<close> for a name \<open>k\<close> that is not an index, giving the updated \<open>v\<close>: a
  \<^verbatim>\<open>TypeError\<close> on \<^verbatim>\<open>undefined\<close> and \<^verbatim>\<open>null\<close>; on a primitive value the assignment is
  dropped silently (the module is not in strict mode).
\<close>

fun set_prop :: "jsval \<Rightarrow> string \<Rightarrow> jsval \<Rightarrow> js_error + jsval" where
  "set_prop JUndefined k x =
     Inl (TypeError (''Cannot set properties of undefined (setting '' @ quoted k @ '')''))"
| "set_prop JNull k x =
     Inl (TypeError (''Cannot set properties of null (setting '' @ quoted k @ '')''))"
| "set_prop (JObj kvs) k x = Inr (JObj (AList.update k x kvs))"
| "set_prop (JArr xs ps) k x = Inr (JArr xs (AList.update k x ps))"
| "set_prop v k x = Inr v"

section \<open>Collaborators\<close>

text \<open>The response envelopes \<^verbatim>\<open>res.ok({ data })\<close>, \<^verbatim>\<open>res.recordNotFound()\<close>, ...;
  \<^verbatim>\<open>failureResponse\<close> is called bare or with \<^verbatim>\<open>{ data: error.message }\<close>.\<close>

datatype response =
    ok jsval
  | recordNotFound
  | badRequest
  | invalidObjectId
  | inValidParam string
  | validationError string
  | isDuplicate
  | failureResponse "string option"

text \<open>The key sets of \<^verbatim>\<open>utils/validation/orderItemValidation\<close>, by name.\<close>

datatype schema_key = schemaKeys | updateSchemaKeys | findFilterKeys

record validation_result =
  isValid :: bool
  message :: string

text \<open>The calls of \<^verbatim>\<open>utils/dbService\<close> with their arguments after the model
  \<^verbatim>\<open>OrderItem\<close>.\<close>

datatype db_call =
    createDocument jsval
  | getAllDocuments jsval jsval
  | countDocument jsval
  | bulkUpdate jsval jsval
  | bulkInsert jsval
  | deleteMany jsval
  | findOneAndUpdateDocument jsval jsval jsval
  | findOneAndDeleteDocument jsval
  | getSingleDocument jsval jsval

text \<open>
  What the controller requires and does not define is a parameter:
  the two validators of \<^verbatim>\<open>utils/validateRequest\<close> (the flag of
  \<open>validateFilterWithJoi\<close> tells whether \<^verbatim>\<open>OrderItem.schema.obj\<close> is passed as third
  argument), the data-access layer \<open>dbService\<close>, which answers a call with a value or
  throws, the constructor \<^verbatim>\<open>new OrderItem(fields)\<close> of the model, the driver's
  \<^verbatim>\<open>ObjectID.isValid\<close>, and the runtime's conversion of a string or an object to a
  number in \<^verbatim>\<open>==\<close> (\<open>None\<close> for \<^verbatim>\<open>NaN\<close>). Only the data-access layer is taken
  to throw; the validators, the constructor and the identifier check return.
\<close>

record env =
  validateParamsWithJoi :: "jsval \<Rightarrow> schema_key \<Rightarrow> validation_result"
  validateFilterWithJoi :: "jsval \<Rightarrow> schema_key \<Rightarrow> bool \<Rightarrow> validation_result"
  dbService :: "db_call \<Rightarrow> js_error + jsval"
  new_OrderItem :: "jsval \<Rightarrow> jsval"
  ObjectID_isValid :: "jsval \<Rightarrow> bool"
  to_number :: "jsval \<Rightarrow> int option"

text \<open>The request: \<^verbatim>\<open>req.body\<close>, \<^verbatim>\<open>req.params\<close>, \<^verbatim>\<open>req.user\<close>.\<close>

record request =
  body :: jsval
  params :: jsval
  user :: jsval

text \<open>\<^verbatim>\<open>v == n\<close> for a number \<open>n\<close>.\<close>

fun loose_eq_num :: "env \<Rightarrow> jsval \<Rightarrow> int \<Rightarrow> bool" where
  "loose_eq_num E JUndefined n = False"
| "loose_eq_num E JNull n = False"
| "loose_eq_num E (JNum m) n = (m = n)"
| "loose_eq_num E (JBool b) n = ((if b then 1 else 0) = n)"
| "loose_eq_num E v n = (to_number E v = Some n)"

section \<open>The handlers\<close>

text \<open>
  A handler is an \<^verbatim>\<open>async\<close> function whose body is one \<^verbatim>\<open>try\<close> block with one
  \<^verbatim>\<open>catch\<close>. The \<^verbatim>\<open>try\<close> block gives the calls made to the data-access layer, in
  order, and either the response it returns or the error thrown in it.
\<close>

type_synonym attempt = "db_call list \<times> (js_error + response)"

definition returns :: "response \<Rightarrow> attempt" where
  "returns r = ([], Inr r)"

definition throws :: "js_error \<Rightarrow> attempt" where
  "throws e = ([], Inl e)"

text \<open>\<^verbatim>\<open>let result = await dbService.f(OrderItem, ...); return k(result)\<close>\<close>

definition await :: "env \<Rightarrow> db_call \<Rightarrow> (jsval \<Rightarrow> response) \<Rightarrow> attempt" where
  "await E c k = ([c], case dbService E c of Inl e \<Rightarrow> Inl e | Inr result \<Rightarrow> Inr (k result))"

subsection \<open>The three catch blocks\<close>

text \<open>\<^verbatim>\<open>error.code && error.code == 11000\<close>\<close>

definition is_duplicate :: "env \<Rightarrow> js_error \<Rightarrow> bool" where
  "is_duplicate E error = (truthy (err_code error) \<and> loose_eq_num E (err_code error) 11000)"

text \<open>\<^verbatim>\<open>catch (error) { return res.failureResponse({ data: error.message }) }\<close>,
  at lines 79-81, 106-108, 193-195, 264-266 and 328-330.\<close>

definition catch_message :: "attempt \<Rightarrow> response \<times> db_call list" where
  "catch_message a =
     (case snd a of
        Inr r \<Rightarrow> (r, fst a)
      | Inl error \<Rightarrow> (failureResponse (Some (err_message error)), fst a))"

text \<open>\<^verbatim>\<open>catch (error) { return res.failureResponse() }\<close>,
  at lines 131-133, 213-215, 232-234 and 348-350.\<close>

definition catch_bare :: "attempt \<Rightarrow> response \<times> db_call list" where
  "catch_bare a =
     (case snd a of
        Inr r \<Rightarrow> (r, fst a)
      | Inl error \<Rightarrow> (failureResponse None, fst a))"

text \<open>The catch block of \<^verbatim>\<open>addOrderItem\<close>, \<^verbatim>\<open>bulkInsertOrderItem\<close> and
  \<^verbatim>\<open>updateOrderItem\<close>, at lines 33-41, 155-163 and 296-304: the name of the error is
  tested first, then its code.\<close>

definition catch_store :: "env \<Rightarrow> attempt \<Rightarrow> response \<times> db_call list" where
  "catch_store E a =
     (case snd a of
        Inr r \<Rightarrow> (r, fst a)
      | Inl error \<Rightarrow>
          (if err_name error = ''ValidationError''
           then validationError (''Invalid Data, Validation Failed at '' @ err_message error)
           else if is_duplicate E error then isDuplicate
           else failureResponse (Some (err_message error)),
           fst a))"

subsection \<open>The try blocks\<close>

text \<open>\<^verbatim>\<open>v < n\<close>, applied only to the \<^verbatim>\<open>length\<close> of an array, which is a number.\<close>

fun num_lt :: "jsval \<Rightarrow> int \<Rightarrow> bool" where
  "num_lt (JNum m) n = (m < n)"
| "num_lt v n = False"

text \<open>Lines 19-33.\<close>

definition addOrderItem_try :: "env \<Rightarrow> request \<Rightarrow> attempt" where
  "addOrderItem_try E req =
     (let validateRequest = validateParamsWithJoi E (body req) schemaKeys in
      if \<not> isValid validateRequest
      then returns (inValidParam (''Invalid values in parameters, '' @ message validateRequest))
      else case get_prop (user req) ''id'' of
             Inl e \<Rightarrow> throws e
           | Inr uid \<Rightarrow>
               let data = new_OrderItem E (JObj (AList.update ''addedBy'' uid (spread [] (body req))))
               in await E (createDocument data) ok)"

text \<open>
  Lines 50-79. Where \<^verbatim>\<open>req.body\<close> or \<^verbatim>\<open>result\<close> has just been found truthy, its
  property is read with \<open>prop_of\<close>: the read cannot throw.
\<close>

definition findAllOrderItem_try :: "env \<Rightarrow> request \<Rightarrow> attempt" where
  "findAllOrderItem_try E req =
     (let validateRequest = validateFilterWithJoi E (body req) findFilterKeys True in
      if \<not> isValid validateRequest
      then returns (inValidParam (message validateRequest))
      else case get_prop (body req) ''query'' of
             Inl e \<Rightarrow> throws e
           | Inr q \<Rightarrow>
               let query = (if is_object q then JObj (spread [] q) else JObj []) in
               (case get_prop (body req) ''isCountOnly'' of
                  Inl e \<Rightarrow> throws e
                | Inr isCountOnly \<Rightarrow>
                    if truthy isCountOnly
                    then await E (countDocument query)
                           (\<lambda>totalRecords. ok (JObj [(''totalRecords'', totalRecords)]))
                    else
                      let options =
                            (if truthy (body req) \<and> is_object (prop_of (body req) ''options'')
                             then JObj (spread [] (prop_of (body req) ''options''))
                             else JObj [])
                      in await E (getAllDocuments query options)
                           (\<lambda>result.
                              if truthy result \<and> truthy (prop_of result ''data'')
                                 \<and> truthy (prop_of (prop_of result ''data'') ''length'')
                              then ok result
                              else recordNotFound)))"

text \<open>Lines 90-106.\<close>

definition getOrderItemCount_try :: "env \<Rightarrow> request \<Rightarrow> attempt" where
  "getOrderItemCount_try E req =
     (let validateRequest = validateFilterWithJoi E (body req) findFilterKeys False in
      if \<not> isValid validateRequest
      then returns (inValidParam (message validateRequest))
      else case get_prop (body req) ''where'' of
             Inl e \<Rightarrow> throws e
           | Inr w \<Rightarrow>
               let where' = (if is_object w then JObj (spread [] w) else JObj [])
               in await E (countDocument where')
                    (\<lambda>result. ok (JObj [(''totalRecords'', result)])))"

text \<open>Lines 117-131.\<close>

definition softDeleteManyOrderItem_try :: "env \<Rightarrow> request \<Rightarrow> attempt" where
  "softDeleteManyOrderItem_try E req =
     (case get_prop (body req) ''ids'' of
        Inl e \<Rightarrow> throws e
      | Inr ids \<Rightarrow>
          if \<not> truthy ids \<or> \<not> isArray ids \<or> num_lt (prop_of ids ''length'') 1
          then returns badRequest
          else
            let query = JObj [(''_id'', JObj [(''$in'', ids)])];
                updateBody = JObj [(''isDeleted'', JBool True)]
            in await E (bulkUpdate query updateBody)
                 (\<lambda>data. if \<not> truthy data then recordNotFound else ok data))"

text \<open>
  The loop of lines 149-151, \<^verbatim>\<open>data[i].addedBy = req.user.id\<close> for every index in
  turn, stopping at the first element that throws.
\<close>

fun stamp_all :: "jsval list \<Rightarrow> jsval \<Rightarrow> js_error + jsval list" where
  "stamp_all [] uid = Inr []"
| "stamp_all (x # xs) uid =
     (case set_prop x ''addedBy'' uid of
        Inl e \<Rightarrow> Inl e
      | Inr y \<Rightarrow> (case stamp_all xs uid of Inl e \<Rightarrow> Inl e | Inr ys \<Rightarrow> Inr (y # ys)))"

text \<open>
  The loop on \<^verbatim>\<open>data\<close>. Past the guard of line 144 \<^verbatim>\<open>data\<close> is a nonempty array,
  or \<^verbatim>\<open>undefined\<close> (when \<^verbatim>\<open>req.body\<close> is \<^verbatim>\<open>0\<close>, \<^verbatim>\<open>""\<close> or \<^verbatim>\<open>false\<close>), where reading
  \<^verbatim>\<open>data.length\<close> throws; no other value reaches the loop.
\<close>

fun stamp_addedBy :: "jsval \<Rightarrow> jsval \<Rightarrow> js_error + jsval" where
  "stamp_addedBy (JArr xs ps) uid =
     (case stamp_all xs uid of Inl e \<Rightarrow> Inl e | Inr ys \<Rightarrow> Inr (JArr ys ps))"
| "stamp_addedBy v uid =
     (case get_prop v ''length'' of Inl e \<Rightarrow> Inl e | Inr n \<Rightarrow> Inr v)"

text \<open>Lines 142-155.\<close>

definition bulkInsertOrderItem_try :: "env \<Rightarrow> request \<Rightarrow> attempt" where
  "bulkInsertOrderItem_try E req =
     (if truthy (body req)
         \<and> (\<not> isArray (prop_of (body req) ''data'')
            \<or> num_lt (prop_of (prop_of (body req) ''data'') ''length'') 1)
      then returns badRequest
      else case get_prop (body req) ''data'' of
             Inl e \<Rightarrow> throws e
           | Inr data \<Rightarrow>
               (case get_prop (user req) ''id'' of
                  Inl e \<Rightarrow> throws e
                | Inr uid \<Rightarrow>
                    (case (if truthy uid then stamp_addedBy data uid else Inr data) of
                       Inl e \<Rightarrow> throws e
                     | Inr data' \<Rightarrow> await E (bulkInsert data') ok)))"

text \<open>Lines 172-193.\<close>

definition bulkUpdateOrderItem_try :: "env \<Rightarrow> request \<Rightarrow> attempt" where
  "bulkUpdateOrderItem_try E req =
     (let filter' =
            (if truthy (body req) \<and> is_object (prop_of (body req) ''filter'')
             then JObj (spread [] (prop_of (body req) ''filter''))
             else JObj [])
      in case get_prop (body req) ''data'' of
           Inl e \<Rightarrow> throws e
         | Inr d \<Rightarrow>
             if is_object d
             then (case get_prop (user req) ''id'' of
                     Inl e \<Rightarrow> throws e
                   | Inr uid \<Rightarrow>
                       let data = JObj (AList.update ''updatedBy'' uid
                                    (AList.delete ''updatedBy''
                                      (AList.delete ''addedBy'' (spread [] d))))
                       in await E (bulkUpdate filter' data)
                            (\<lambda>result. if \<not> truthy result then recordNotFound else ok result))
             else returns badRequest)"

text \<open>Lines 204-213.\<close>

definition deleteManyOrderItem_try :: "env \<Rightarrow> request \<Rightarrow> attempt" where
  "deleteManyOrderItem_try E req =
     (case get_prop (body req) ''ids'' of
        Inl e \<Rightarrow> throws e
      | Inr ids \<Rightarrow>
          if \<not> truthy ids \<or> \<not> isArray ids \<or> num_lt (prop_of ids ''length'') 1
          then returns badRequest
          else
            let query = JObj [(''_id'', JObj [(''$in'', ids)])]
            in await E (deleteMany query) ok)"

text \<open>Lines 223-232.\<close>

definition softDeleteOrderItem_try :: "env \<Rightarrow> request \<Rightarrow> attempt" where
  "softDeleteOrderItem_try E req =
     (case get_prop (params req) ''id'' of
        Inl e \<Rightarrow> throws e
      | Inr id' \<Rightarrow>
          let query = JObj [(''_id'', id')];
              updateBody = JObj [(''isDeleted'', JBool True)]
          in await E (findOneAndUpdateDocument query updateBody (JObj [(''new'', JBool True)]))
               (\<lambda>result. if \<not> truthy result then recordNotFound else ok result))"

text \<open>Lines 243-264.\<close>

definition partialUpdateOrderItem_try :: "env \<Rightarrow> request \<Rightarrow> attempt" where
  "partialUpdateOrderItem_try E req =
     (case delete_prop (body req) ''addedBy'' of
        Inl e \<Rightarrow> throws e
      | Inr body1 \<Rightarrow>
     (case delete_prop body1 ''updatedBy'' of
        Inl e \<Rightarrow> throws e
      | Inr body2 \<Rightarrow>
     (case get_prop (user req) ''id'' of
        Inl e \<Rightarrow> throws e
      | Inr uid \<Rightarrow>
          let data = JObj (spread [(''updatedBy'', uid)] body2);
              validateRequest = validateParamsWithJoi E data updateSchemaKeys
          in if \<not> isValid validateRequest
             then returns (inValidParam (''Invalid values in parameters, '' @ message validateRequest))
             else (case get_prop (params req) ''id'' of
                     Inl e \<Rightarrow> throws e
                   | Inr id' \<Rightarrow>
                       let query = JObj [(''_id'', id')]
                       in await E (findOneAndUpdateDocument query data (JObj [(''new'', JBool True)]))
                            (\<lambda>result. if \<not> truthy result then recordNotFound else ok result)))))"

text \<open>Lines 275-296.\<close>

definition updateOrderItem_try :: "env \<Rightarrow> request \<Rightarrow> attempt" where
  "updateOrderItem_try E req =
     (case delete_prop (body req) ''addedBy'' of
        Inl e \<Rightarrow> throws e
      | Inr body1 \<Rightarrow>
     (case delete_prop body1 ''updatedBy'' of
        Inl e \<Rightarrow> throws e
      | Inr body2 \<Rightarrow>
     (case get_prop (user req) ''id'' of
        Inl e \<Rightarrow> throws e
      | Inr uid \<Rightarrow>
          let data = JObj (spread [(''updatedBy'', uid)] body2);
              validateRequest = validateParamsWithJoi E data updateSchemaKeys
          in if \<not> isValid validateRequest
             then returns (inValidParam (''Invalid values in parameters, '' @ message validateRequest))
             else (case get_prop (params req) ''id'' of
                     Inl e \<Rightarrow> throws e
                   | Inr id' \<Rightarrow>
                       let query = JObj [(''_id'', id')]
                       in await E (findOneAndUpdateDocument query data (JObj [(''new'', JBool True)]))
                            (\<lambda>result. if \<not> truthy result then recordNotFound else ok result)))))"

text \<open>Lines 313-327.\<close>

definition getOrderItem_try :: "env \<Rightarrow> request \<Rightarrow> attempt" where
  "getOrderItem_try E req =
     (case get_prop (params req) ''id'' of
        Inl e \<Rightarrow> throws e
      | Inr id' \<Rightarrow>
          if \<not> ObjectID_isValid E id'
          then returns invalidObjectId
          else
            let query = JObj [(''_id'', id')];
                options = JObj []
            in await E (getSingleDocument query options)
                 (\<lambda>result. if truthy result then ok result else recordNotFound))"

text \<open>Lines 339-347.\<close>

definition deleteOrderItem_try :: "env \<Rightarrow> request \<Rightarrow> attempt" where
  "deleteOrderItem_try E req =
     (case get_prop (params req) ''id'' of
        Inl e \<Rightarrow> throws e
      | Inr id' \<Rightarrow>
          let query = JObj [(''_id'', id')]
          in await E (findOneAndDeleteDocument query)
               (\<lambda>result. if truthy result then ok result else recordNotFound))"

subsection \<open>The exported handlers\<close>

text \<open>Each handler gives its response and the calls it made to the data-access layer.\<close>

definition addOrderItem :: "env \<Rightarrow> request \<Rightarrow> response \<times> db_call list" where
  "addOrderItem E req = catch_store E (addOrderItem_try E req)"

definition findAllOrderItem :: "env \<Rightarrow> request \<Rightarrow> response \<times> db_call list" where
  "findAllOrderItem E req = catch_message (findAllOrderItem_try E req)"

definition getOrderItemCount :: "env \<Rightarrow> request \<Rightarrow> response \<times> db_call list" where
  "getOrderItemCount E req = catch_message (getOrderItemCount_try E req)"

definition softDeleteManyOrderItem :: "env \<Rightarrow> request \<Rightarrow> response \<times> db_call list" where
  "softDeleteManyOrderItem E req = catch_bare (softDeleteManyOrderItem_try E req)"

definition bulkInsertOrderItem :: "env \<Rightarrow> request \<Rightarrow> response \<times> db_call list" where
  "bulkInsertOrderItem E req = catch_store E (bulkInsertOrderItem_try E req)"

definition bulkUpdateOrderItem :: "env \<Rightarrow> request \<Rightarrow> response \<times> db_call list" where
  "bulkUpdateOrderItem E req = catch_message (bulkUpdateOrderItem_try E req)"

definition deleteManyOrderItem :: "env \<Rightarrow> request \<Rightarrow> response \<times> db_call list" where
  "deleteManyOrderItem E req = catch_bare (deleteManyOrderItem_try E req)"

definition softDeleteOrderItem :: "env \<Rightarrow> request \<Rightarrow> response \<times> db_call list" where
  "softDeleteOrderItem E req = catch_bare (softDeleteOrderItem_try E req)"

definition partialUpdateOrderItem :: "env \<Rightarrow> request \<Rightarrow> response \<times> db_call list" where
  "partialUpdateOrderItem E req = catch_message (partialUpdateOrderItem_try E req)"

definition updateOrderItem :: "env \<Rightarrow> request \<Rightarrow> response \<times> db_call list" where
  "updateOrderItem E req = catch_store E (updateOrderItem_try E req)"

definition getOrderItem :: "env \<Rightarrow> request \<Rightarrow> response \<times> db_call list" where
  "getOrderItem E req = catch_message (getOrderItem_try E req)"

definition deleteOrderItem :: "env \<Rightarrow> request \<Rightarrow> response \<times> db_call list" where
  "deleteOrderItem E req = catch_bare (deleteOrderItem_try E req)"

text \<open>The twelve operations of \<^verbatim>\<open>module.exports\<close>.\<close>

datatype operation =
    AddOrderItem
  | FindAllOrderItem
  | GetOrderItemCount
  | SoftDeleteManyOrderItem
  | BulkInsertOrderItem
  | BulkUpdateOrderItem
  | DeleteManyOrderItem
  | SoftDeleteOrderItem
  | PartialUpdateOrderItem
  | UpdateOrderItem
  | GetOrderItem
  | DeleteOrderItem

fun try_block :: "operation \<Rightarrow> env \<Rightarrow> request \<Rightarrow> attempt" where
  "try_block AddOrderItem = addOrderItem_try"
| "try_block FindAllOrderItem = findAllOrderItem_try"
| "try_block GetOrderItemCount = getOrderItemCount_try"
| "try_block SoftDeleteManyOrderItem = softDeleteManyOrderItem_try"
| "try_block BulkInsertOrderItem = bulkInsertOrderItem_try"
| "try_block BulkUpdateOrderItem = bulkUpdateOrderItem_try"
| "try_block DeleteManyOrderItem = deleteManyOrderItem_try"
| "try_block SoftDeleteOrderItem = softDeleteOrderItem_try"
| "try_block PartialUpdateOrderItem = partialUpdateOrderItem_try"
| "try_block UpdateOrderItem = updateOrderItem_try"
| "try_block GetOrderItem = getOrderItem_try"
| "try_block DeleteOrderItem = deleteOrderItem_try"

fun handler :: "operation \<Rightarrow> env \<Rightarrow> request \<Rightarrow> response \<times> db_call list" where
  "handler AddOrderItem = addOrderItem"
| "handler FindAllOrderItem = findAllOrderItem"
| "handler GetOrderItemCount = getOrderItemCount"
| "handler SoftDeleteManyOrderItem = softDeleteManyOrderItem"
| "handler BulkInsertOrderItem = bulkInsertOrderItem"
| "handler BulkUpdateOrderItem = bulkUpdateOrderItem"
| "handler DeleteManyOrderItem = deleteManyOrderItem"
| "handler SoftDeleteOrderItem = softDeleteOrderItem"
| "handler PartialUpdateOrderItem = partialUpdateOrderItem"
| "handler UpdateOrderItem = updateOrderItem"
| "handler GetOrderItem = getOrderItem"
| "handler DeleteOrderItem = deleteOrderItem"

section \<open>Reading the calls\<close>

text \<open>The update document of a call that writes to matched records.\<close>

fun update_body :: "db_call \<Rightarrow> jsval option" where
  "update_body (bulkUpdate q d) = Some d"
| "update_body (findOneAndUpdateDocument q d opts) = Some d"
| "update_body c = None"

text \<open>The responses that reject a request before the store is reached.\<close>

fun is_rejection :: "response \<Rightarrow> bool" where
  "is_rejection badRequest = True"
| "is_rejection (inValidParam m) = True"
| "is_rejection invalidObjectId = True"
| "is_rejection r = False"

text \<open>
  The shape every try block has: either no call was made, and then the block threw or
  returned a rejection; or one call was made, and then the block threw what the call
  threw or returned, from the value of the call, a response that is not a rejection.
\<close>

definition one_round_trip :: "env \<Rightarrow> attempt \<Rightarrow> bool" where
  "one_round_trip E a =
     (case fst a of
        [] \<Rightarrow> (case snd a of Inr r \<Rightarrow> is_rejection r | Inl e \<Rightarrow> True)
      | [c] \<Rightarrow> (case snd a of
                 Inr r \<Rightarrow> \<not> is_rejection r \<and> \<not> isl (dbService E c)
               | Inl e \<Rightarrow> dbService E c = Inl e)
      | c # c' # cs \<Rightarrow> False)"

section \<open>Scenarios\<close>

text \<open>
  The check \<^verbatim>\<open>ObjectID.isValid\<close> of the driver (package \<^verbatim>\<open>mongodb\<close>, in its
  \<^verbatim>\<open>bson\<close> library) on the values a path parameter takes: \<^verbatim>\<open>undefined\<close> and \<^verbatim>\<open>null\<close>
  are refused, a number is accepted, and a string is accepted when it has 12 characters,
  whatever they are, or when it is 24 hexadecimal digits. A path parameter is never a
  boolean, an array or a plain object; these are refused.
\<close>

definition is_hex :: "char \<Rightarrow> bool" where
  "is_hex c = (c \<in> set ''0123456789abcdefABCDEF'')"

fun driver_isValid :: "jsval \<Rightarrow> bool" where
  "driver_isValid JUndefined = False"
| "driver_isValid JNull = False"
| "driver_isValid (JNum n) = True"
| "driver_isValid (JStr s) = (length s = 12 \<or> (length s = 24 \<and> list_all is_hex s))"
| "driver_isValid v = False"

text \<open>
  Concrete collaborators and requests on which the theorems below are exercised:
  validators that accept every payload, a store that answers every call with one value
  or throws one error, a model constructor that keeps the fields it is given, and the
  identifier check of the driver. The error codes of the scenarios are numbers or
  absent, so that \<^verbatim>\<open>==\<close> never consults the conversion \<open>to_number\<close>.
\<close>

definition accepting :: validation_result where
  "accepting = \<lparr>isValid = True, message = []\<rparr>"

definition answering :: "jsval \<Rightarrow> db_call \<Rightarrow> js_error + jsval" where
  "answering v c = Inr v"

definition failing :: "js_error \<Rightarrow> db_call \<Rightarrow> js_error + jsval" where
  "failing e c = Inl e"

definition scenario :: "(db_call \<Rightarrow> js_error + jsval) \<Rightarrow> env" where
  "scenario store =
     \<lparr>validateParamsWithJoi = (\<lambda>payload keys. accepting),
      validateFilterWithJoi = (\<lambda>payload keys schema. accepting),
      dbService = store,
      new_OrderItem = (\<lambda>fields. fields),
      ObjectID_isValid = driver_isValid,
      to_number = (\<lambda>v. None)\<rparr>"

definition request_by :: "string \<Rightarrow> string \<Rightarrow> jsval \<Rightarrow> request" where
  "request_by uid i b =
     \<lparr>body = b, params = JObj [(''id'', JStr i)], user = JObj [(''id'', JStr uid)]\<rparr>"

definition store_error :: "string \<Rightarrow> jsval \<Rightarrow> js_error" where
  "store_error n c = \<lparr>err_name = n, err_code = c, err_message = ''store failed''\<rparr>"

section \<open>Basic facts\<close>

lemmas try_defs = addOrderItem_try_def findAllOrderItem_try_def getOrderItemCount_try_def
  softDeleteManyOrderItem_try_def bulkInsertOrderItem_try_def bulkUpdateOrderItem_try_def
  deleteManyOrderItem_try_def softDeleteOrderItem_try_def partialUpdateOrderItem_try_def
  updateOrderItem_try_def getOrderItem_try_def deleteOrderItem_try_def

lemmas handler_defs = addOrderItem_def findAllOrderItem_def getOrderItemCount_def
  softDeleteManyOrderItem_def bulkInsertOrderItem_def bulkUpdateOrderItem_def
  deleteManyOrderItem_def softDeleteOrderItem_def partialUpdateOrderItem_def
  updateOrderItem_def getOrderItem_def deleteOrderItem_def

lemmas scenario_defs = scenario_def accepting_def answering_def failing_def request_by_def
  store_error_def

lemma snd_catch [simp]:
  "snd (catch_message a) = fst a" "snd (catch_bare a) = fst a" "snd (catch_store E a) = fst a"
  by (auto simp: catch_message_def catch_bare_def catch_store_def split: sum.splits)

lemma handler_calls: "snd (handler op E req) = fst (try_block op E req)"
  by (cases op) (simp_all add: handler_defs)

lemma attempt_simps [simp]:
  "fst (returns r) = []" "snd (returns r) = Inr r"
  "fst (throws e) = []" "snd (throws e) = Inl e"
  "fst (await E c k) = [c]"
  "snd (await E c k) = (case dbService E c of Inl e \<Rightarrow> Inl e | Inr result \<Rightarrow> Inr (k result))"
  by (simp_all add: returns_def throws_def await_def)

lemma try_block_calls: "length (fst (try_block op E req)) \<le> 1"
  by (cases op) (auto simp: try_defs Let_def split: sum.splits)

section \<open>Soft delete writes one field\<close>

text \<open>
  Claim C10. Every call that \<open>softDeleteOrderItem\<close> or \<open>softDeleteManyOrderItem\<close> makes to
  the data-access layer carries the update document \<^verbatim>\<open>{ isDeleted: true }\<close> and nothing
  else: its only own property is \<^verbatim>\<open>isDeleted\<close>, so \<^verbatim>\<open>updatedBy\<close> is not in it, and the
  call asks the store to change no other field of a matched record.
\<close>

theorem soft_delete_update_body:
  assumes "c \<in> set (snd (softDeleteOrderItem E req))
           \<or> c \<in> set (snd (softDeleteManyOrderItem E req))"
  shows "\<exists>d. update_body c = Some d
            \<and> own_props d = [(''isDeleted'', JBool True)]
            \<and> ''updatedBy'' \<notin> fst ` set (own_props d)"
  using assms
  by (auto simp: softDeleteOrderItem_def softDeleteManyOrderItem_def try_defs Let_def
        split: sum.splits if_splits)

theorem soft_delete_update_body_witness:
  "findOneAndUpdateDocument (JObj [(''_id'', JStr ''i1'')]) (JObj [(''isDeleted'', JBool True)])
       (JObj [(''new'', JBool True)])
     \<in> set (snd (softDeleteOrderItem (scenario (answering JNull)) (request_by ''u1'' ''i1'' (JObj []))))
   \<and> update_body (findOneAndUpdateDocument (JObj [(''_id'', JStr ''i1'')])
          (JObj [(''isDeleted'', JBool True)]) (JObj [(''new'', JBool True)]))
       = Some (JObj [(''isDeleted'', JBool True)])
   \<and> bulkUpdate (JObj [(''_id'', JObj [(''$in'', JArr [JStr ''a''] [])])]) (JObj [(''isDeleted'', JBool True)])
     \<in> set (snd (softDeleteManyOrderItem (scenario (answering JNull))
                 (request_by ''u1'' ''i1'' (JObj [(''ids'', JArr [JStr ''a''] [])]))))
   \<and> update_body (bulkUpdate (JObj [(''_id'', JObj [(''$in'', JArr [JStr ''a''] [])])])
          (JObj [(''isDeleted'', JBool True)]))
       = Some (JObj [(''isDeleted'', JBool True)])"
  using soft_delete_update_body [of
      "findOneAndUpdateDocument (JObj [(''_id'', JStr ''i1'')]) (JObj [(''isDeleted'', JBool True)])
         (JObj [(''new'', JBool True)])"
      "scenario (answering JNull)" "request_by ''u1'' ''i1'' (JObj [])"]
    soft_delete_update_body [of
      "bulkUpdate (JObj [(''_id'', JObj [(''$in'', JArr [JStr ''a''] [])])]) (JObj [(''isDeleted'', JBool True)])"
      "scenario (answering JNull)" "request_by ''u1'' ''i1'' (JObj [(''ids'', JArr [JStr ''a''] [])])"]
  by (simp add: softDeleteOrderItem_def softDeleteOrderItem_try_def softDeleteManyOrderItem_def
        softDeleteManyOrderItem_try_def scenario_defs get_prop_def Let_def)

section \<open>Bad request on missing identifiers\<close>

text \<open>
  Claim C4. Let \<open>ids\<close> be the \<^verbatim>\<open>ids\<close> field of the request body (the body being a
  value whose properties can be read). If \<open>ids\<close> is absent, that is \<^verbatim>\<open>undefined\<close>, or
  is not an array, or is an empty array, then both bulk-by-ids handlers,
  \<open>softDeleteManyOrderItem\<close> and \<open>deleteManyOrderItem\<close>, return the bad-request response
  and make no call to the data-access layer.
\<close>

theorem bulk_ids_bad_request:
  assumes "get_prop (body req) ''ids'' = Inr ids"
      and "ids = JUndefined \<or> \<not> isArray ids \<or> (\<exists>ps. ids = JArr [] ps)"
  shows "softDeleteManyOrderItem E req = (badRequest, [])
         \<and> deleteManyOrderItem E req = (badRequest, [])"
  using assms
  by (auto simp: softDeleteManyOrderItem_def deleteManyOrderItem_def try_defs catch_bare_def
        returns_def)

theorem bulk_ids_bad_request_witness:
  "get_prop (body (request_by ''u1'' ''i1'' (JObj [(''ids'', JArr [] [])]))) ''ids'' = Inr (JArr [] [])
   \<and> softDeleteManyOrderItem (scenario (answering JNull))
        (request_by ''u1'' ''i1'' (JObj [(''ids'', JArr [] [])])) = (badRequest, [])
   \<and> deleteManyOrderItem (scenario (answering JNull))
        (request_by ''u1'' ''i1'' (JObj [(''ids'', JArr [] [])])) = (badRequest, [])"
  using bulk_ids_bad_request [of "request_by ''u1'' ''i1'' (JObj [(''ids'', JArr [] [])])" "JArr [] []"
      "scenario (answering JNull)"]
  by (simp add: request_by_def get_prop_def)

section \<open>No match is not an error\<close>

text \<open>
  Past their checks, the six handlers that answer a missing match each make one call
  to the store and decide on its result; the call and the decision are these.
\<close>

lemma catch_await:
  "dbService E c = Inr result \<Longrightarrow> fst (catch_message (await E c k)) = k result"
  "dbService E c = Inr result \<Longrightarrow> fst (catch_bare (await E c k)) = k result"
  "dbService E c = Inr result \<Longrightarrow> fst (catch_store E (await E c k)) = k result"
  by (simp_all add: catch_message_def catch_bare_def catch_store_def)

lemma softDeleteOrderItem_reaches_store:
  assumes "get_prop (params req) ''id'' = Inr i"
  shows "softDeleteOrderItem_try E req
         = await E (findOneAndUpdateDocument (JObj [(''_id'', i)]) (JObj [(''isDeleted'', JBool True)])
                      (JObj [(''new'', JBool True)]))
             (\<lambda>result. if \<not> truthy result then recordNotFound else ok result)"
  using assms by (simp add: softDeleteOrderItem_try_def)

lemma deleteOrderItem_reaches_store:
  assumes "get_prop (params req) ''id'' = Inr i"
  shows "deleteOrderItem_try E req
         = await E (findOneAndDeleteDocument (JObj [(''_id'', i)]))
             (\<lambda>result. if truthy result then ok result else recordNotFound)"
  using assms by (simp add: deleteOrderItem_try_def)

lemma update_reaches_store:
  assumes "delete_prop (body req) ''addedBy'' = Inr b1" and "delete_prop b1 ''updatedBy'' = Inr b2"
      and "get_prop (user req) ''id'' = Inr uid"
      and "isValid (validateParamsWithJoi E (JObj (spread [(''updatedBy'', uid)] b2)) updateSchemaKeys)"
      and "get_prop (params req) ''id'' = Inr i"
  shows "partialUpdateOrderItem_try E req
         = await E (findOneAndUpdateDocument (JObj [(''_id'', i)])
                      (JObj (spread [(''updatedBy'', uid)] b2)) (JObj [(''new'', JBool True)]))
             (\<lambda>result. if \<not> truthy result then recordNotFound else ok result)"
    and "updateOrderItem_try E req
         = await E (findOneAndUpdateDocument (JObj [(''_id'', i)])
                      (JObj (spread [(''updatedBy'', uid)] b2)) (JObj [(''new'', JBool True)]))
             (\<lambda>result. if \<not> truthy result then recordNotFound else ok result)"
  using assms by (simp_all add: partialUpdateOrderItem_try_def updateOrderItem_try_def Let_def)

lemma bulkUpdateOrderItem_reaches_store:
  assumes "get_prop (body req) ''data'' = Inr d" and "is_object d"
      and "get_prop (user req) ''id'' = Inr uid"
  shows "bulkUpdateOrderItem_try E req
         = await E (bulkUpdate
                      (if truthy (body req) \<and> is_object (prop_of (body req) ''filter'')
                       then JObj (spread [] (prop_of (body req) ''filter'')) else JObj [])
                      (JObj (AList.update ''updatedBy'' uid
                         (AList.delete ''updatedBy'' (AList.delete ''addedBy'' (spread [] d))))))
             (\<lambda>result. if \<not> truthy result then recordNotFound else ok result)"
  using assms by (simp add: bulkUpdateOrderItem_try_def Let_def)

lemma softDeleteManyOrderItem_reaches_store:
  assumes "get_prop (body req) ''ids'' = Inr (JArr (x # xs) ps)"
  shows "softDeleteManyOrderItem_try E req
         = await E (bulkUpdate (JObj [(''_id'', JObj [(''$in'', JArr (x # xs) ps)])])
                      (JObj [(''isDeleted'', JBool True)]))
             (\<lambda>data. if \<not> truthy data then recordNotFound else ok data)"
  using assms by (simp add: softDeleteManyOrderItem_try_def Let_def)

text \<open>
  Claim C7, as stated, fails for the empty half of the null/empty no-match sentinel.
  The handlers test the result with \<^verbatim>\<open>!result\<close>, and an empty array is truthy: when
  the bulk update of \<open>softDeleteManyOrderItem\<close> matches nothing and the store answers
  with an empty array, the handler returns \<^verbatim>\<open>ok\<close> with that array, not the not-found
  response.
\<close>

theorem not_found_counterexample:
  "dbService (scenario (answering (JArr [] [])))
      (bulkUpdate (JObj [(''_id'', JObj [(''$in'', JArr [JStr ''a'', JStr ''b''] [])])])
         (JObj [(''isDeleted'', JBool True)]))
     = Inr (JArr [] [])
   \<and> softDeleteManyOrderItem (scenario (answering (JArr [] [])))
        (request_by ''u1'' ''i1'' (JObj [(''ids'', JArr [JStr ''a'', JStr ''b''] [])]))
     = (ok (JArr [] []),
        [bulkUpdate (JObj [(''_id'', JObj [(''$in'', JArr [JStr ''a'', JStr ''b''] [])])])
           (JObj [(''isDeleted'', JBool True)])])
   \<and> fst (softDeleteManyOrderItem (scenario (answering (JArr [] [])))
        (request_by ''u1'' ''i1'' (JObj [(''ids'', JArr [JStr ''a'', JStr ''b''] [])])))
     \<noteq> recordNotFound"
  by (simp add: softDeleteManyOrderItem_def softDeleteManyOrderItem_try_def catch_bare_def
        scenario_defs get_prop_def Let_def await_def)

text \<open>
  Claim C7, amended. For the single-record mutations by id (\<open>softDeleteOrderItem\<close>,
  \<open>partialUpdateOrderItem\<close>, \<open>updateOrderItem\<close>, \<open>deleteOrderItem\<close>), for
  \<open>bulkUpdateOrderItem\<close> and for \<open>softDeleteManyOrderItem\<close>: a request that passes the
  handler's checks (the path parameter, the body and the caller's identity can be read,
  the update payload is valid, \<^verbatim>\<open>data\<close> is an object, \<^verbatim>\<open>ids\<close> is a nonempty array)
  makes exactly one call to the data-access layer, and when that call returns a falsy
  value (\<^verbatim>\<open>null\<close>, \<^verbatim>\<open>undefined\<close>, \<^verbatim>\<open>false\<close>, \<^verbatim>\<open>0\<close> or the empty string) the
  handler returns the not-found response as a normal outcome, not a failure response;
  every other returned value, an empty array or object included, is answered with
  \<^verbatim>\<open>ok\<close>.
\<close>

theorem not_found_on_no_match:
  "(get_prop (params req) ''id'' = Inr i
     \<longrightarrow> (\<exists>c. snd (softDeleteOrderItem E req) = [c]
            \<and> (\<forall>result. dbService E c = Inr result \<longrightarrow>
                  fst (softDeleteOrderItem E req)
                    = (if truthy result then ok result else recordNotFound)))
       \<and> (\<exists>c. snd (deleteOrderItem E req) = [c]
            \<and> (\<forall>result. dbService E c = Inr result \<longrightarrow>
                  fst (deleteOrderItem E req)
                    = (if truthy result then ok result else recordNotFound))))
   \<and> (delete_prop (body req) ''addedBy'' = Inr b1 \<and> delete_prop b1 ''updatedBy'' = Inr b2
      \<and> get_prop (user req) ''id'' = Inr uid
      \<and> isValid (validateParamsWithJoi E (JObj (spread [(''updatedBy'', uid)] b2)) updateSchemaKeys)
      \<and> get_prop (params req) ''id'' = Inr i
     \<longrightarrow> (\<exists>c. snd (partialUpdateOrderItem E req) = [c]
            \<and> (\<forall>result. dbService E c = Inr result \<longrightarrow>
                  fst (partialUpdateOrderItem E req)
                    = (if truthy result then ok result else recordNotFound)))
       \<and> (\<exists>c. snd (updateOrderItem E req) = [c]
            \<and> (\<forall>result. dbService E c = Inr result \<longrightarrow>
                  fst (updateOrderItem E req)
                    = (if truthy result then ok result else recordNotFound))))
   \<and> (get_prop (body req) ''data'' = Inr d \<and> is_object d \<and> get_prop (user req) ''id'' = Inr uid
     \<longrightarrow> (\<exists>c. snd (bulkUpdateOrderItem E req) = [c]
            \<and> (\<forall>result. dbService E c = Inr result \<longrightarrow>
                  fst (bulkUpdateOrderItem E req)
                    = (if truthy result then ok result else recordNotFound))))
   \<and> (get_prop (body req) ''ids'' = Inr (JArr (x # xs) ps)
     \<longrightarrow> (\<exists>c. snd (softDeleteManyOrderItem E req) = [c]
            \<and> (\<forall>result. dbService E c = Inr result \<longrightarrow>
                  fst (softDeleteManyOrderItem E req)
                    = (if truthy result then ok result else recordNotFound))))"
proof (intro conjI impI)
  assume a: "get_prop (params req) ''id'' = Inr i"
  show "\<exists>c. snd (softDeleteOrderItem E req) = [c]
            \<and> (\<forall>result. dbService E c = Inr result \<longrightarrow>
                  fst (softDeleteOrderItem E req)
                    = (if truthy result then ok result else recordNotFound))"
    by (rule exI [of _ "findOneAndUpdateDocument (JObj [(''_id'', i)])
          (JObj [(''isDeleted'', JBool True)]) (JObj [(''new'', JBool True)])"])
       (simp add: softDeleteOrderItem_def softDeleteOrderItem_reaches_store [OF a] catch_await)
  show "\<exists>c. snd (deleteOrderItem E req) = [c]
            \<and> (\<forall>result. dbService E c = Inr result \<longrightarrow>
                  fst (deleteOrderItem E req)
                    = (if truthy result then ok result else recordNotFound))"
    by (rule exI [of _ "findOneAndDeleteDocument (JObj [(''_id'', i)])"])
       (simp add: deleteOrderItem_def deleteOrderItem_reaches_store [OF a] catch_await)
next
  assume a: "delete_prop (body req) ''addedBy'' = Inr b1 \<and> delete_prop b1 ''updatedBy'' = Inr b2
      \<and> get_prop (user req) ''id'' = Inr uid
      \<and> isValid (validateParamsWithJoi E (JObj (spread [(''updatedBy'', uid)] b2)) updateSchemaKeys)
      \<and> get_prop (params req) ''id'' = Inr i"
  then have r: "partialUpdateOrderItem_try E req
         = await E (findOneAndUpdateDocument (JObj [(''_id'', i)])
                      (JObj (spread [(''updatedBy'', uid)] b2)) (JObj [(''new'', JBool True)]))
             (\<lambda>result. if \<not> truthy result then recordNotFound else ok result)"
      "updateOrderItem_try E req
         = await E (findOneAndUpdateDocument (JObj [(''_id'', i)])
                      (JObj (spread [(''updatedBy'', uid)] b2)) (JObj [(''new'', JBool True)]))
             (\<lambda>result. if \<not> truthy result then recordNotFound else ok result)"
    using update_reaches_store [of req b1 b2 uid E i] by simp_all
  show "\<exists>c. snd (partialUpdateOrderItem E req) = [c]
            \<and> (\<forall>result. dbService E c = Inr result \<longrightarrow>
                  fst (partialUpdateOrderItem E req)
                    = (if truthy result then ok result else recordNotFound))"
    by (rule exI [of _ "findOneAndUpdateDocument (JObj [(''_id'', i)])
          (JObj (spread [(''updatedBy'', uid)] b2)) (JObj [(''new'', JBool True)])"])
       (simp add: partialUpdateOrderItem_def r catch_await)
  show "\<exists>c. snd (updateOrderItem E req) = [c]
            \<and> (\<forall>result. dbService E c = Inr result \<longrightarrow>
                  fst (updateOrderItem E req)
                    = (if truthy result then ok result else recordNotFound))"
    by (rule exI [of _ "findOneAndUpdateDocument (JObj [(''_id'', i)])
          (JObj (spread [(''updatedBy'', uid)] b2)) (JObj [(''new'', JBool True)])"])
       (simp add: updateOrderItem_def r catch_await)
next
  assume a: "get_prop (body req) ''data'' = Inr d \<and> is_object d \<and> get_prop (user req) ''id'' = Inr uid"
  show "\<exists>c. snd (bulkUpdateOrderItem E req) = [c]
            \<and> (\<forall>result. dbService E c = Inr result \<longrightarrow>
                  fst (bulkUpdateOrderItem E req)
                    = (if truthy result then ok result else recordNotFound))"
    using a
    by (intro exI [of _ "bulkUpdate
                      (if truthy (body req) \<and> is_object (prop_of (body req) ''filter'')
                       then JObj (spread [] (prop_of (body req) ''filter'')) else JObj [])
                      (JObj (AList.update ''updatedBy'' uid
                         (AList.delete ''updatedBy'' (AList.delete ''addedBy'' (spread [] d)))))"])
       (simp add: bulkUpdateOrderItem_def bulkUpdateOrderItem_reaches_store [of req d uid E]
          catch_await)
next
  assume a: "get_prop (body req) ''ids'' = Inr (JArr (x # xs) ps)"
  show "\<exists>c. snd (softDeleteManyOrderItem E req) = [c]
            \<and> (\<forall>result. dbService E c = Inr result \<longrightarrow>
                  fst (softDeleteManyOrderItem E req)
                    = (if truthy result then ok result else recordNotFound))"
    by (rule exI [of _ "bulkUpdate (JObj [(''_id'', JObj [(''$in'', JArr (x # xs) ps)])])
                      (JObj [(''isDeleted'', JBool True)])"])
       (simp add: softDeleteManyOrderItem_def softDeleteManyOrderItem_reaches_store [OF a]
          catch_await)
qed

theorem not_found_on_no_match_witness:
  "get_prop (params (request_by ''u1'' ''i1''
       (JObj [(''name'', JStr ''Widget''), (''data'', JObj [(''qty'', JNum 2)]),
              (''ids'', JArr [JStr ''a'', JStr ''b''] [])]))) ''id'' = Inr (JStr ''i1'')
   \<and> get_prop (user (request_by ''u1'' ''i1''
       (JObj [(''name'', JStr ''Widget''), (''data'', JObj [(''qty'', JNum 2)]),
              (''ids'', JArr [JStr ''a'', JStr ''b''] [])]))) ''id'' = Inr (JStr ''u1'')
   \<and> get_prop (body (request_by ''u1'' ''i1''
       (JObj [(''name'', JStr ''Widget''), (''data'', JObj [(''qty'', JNum 2)]),
              (''ids'', JArr [JStr ''a'', JStr ''b''] [])]))) ''data'' = Inr (JObj [(''qty'', JNum 2)])
   \<and> get_prop (body (request_by ''u1'' ''i1''
       (JObj [(''name'', JStr ''Widget''), (''data'', JObj [(''qty'', JNum 2)]),
              (''ids'', JArr [JStr ''a'', JStr ''b''] [])]))) ''ids'' = Inr (JArr [JStr ''a'', JStr ''b''] [])
   \<and> softDeleteOrderItem (scenario (answering JNull)) (request_by ''u1'' ''i1''
       (JObj [(''name'', JStr ''Widget''), (''data'', JObj [(''qty'', JNum 2)]),
              (''ids'', JArr [JStr ''a'', JStr ''b''] [])]))
      = (recordNotFound,
         [findOneAndUpdateDocument (JObj [(''_id'', JStr ''i1'')]) (JObj [(''isDeleted'', JBool True)])
            (JObj [(''new'', JBool True)])])
   \<and> deleteOrderItem (scenario (answering JNull)) (request_by ''u1'' ''i1''
       (JObj [(''name'', JStr ''Widget''), (''data'', JObj [(''qty'', JNum 2)]),
              (''ids'', JArr [JStr ''a'', JStr ''b''] [])]))
      = (recordNotFound, [findOneAndDeleteDocument (JObj [(''_id'', JStr ''i1'')])])
   \<and> fst (partialUpdateOrderItem (scenario (answering JNull)) (request_by ''u1'' ''i1''
       (JObj [(''name'', JStr ''Widget''), (''data'', JObj [(''qty'', JNum 2)]),
              (''ids'', JArr [JStr ''a'', JStr ''b''] [])]))) = recordNotFound
   \<and> length (snd (partialUpdateOrderItem (scenario (answering JNull)) (request_by ''u1'' ''i1''
       (JObj [(''name'', JStr ''Widget''), (''data'', JObj [(''qty'', JNum 2)]),
              (''ids'', JArr [JStr ''a'', JStr ''b''] [])])))) = 1
   \<and> fst (updateOrderItem (scenario (answering JNull)) (request_by ''u1'' ''i1''
       (JObj [(''name'', JStr ''Widget''), (''data'', JObj [(''qty'', JNum 2)]),
              (''ids'', JArr [JStr ''a'', JStr ''b''] [])]))) = recordNotFound
   \<and> length (snd (updateOrderItem (scenario (answering JNull)) (request_by ''u1'' ''i1''
       (JObj [(''name'', JStr ''Widget''), (''data'', JObj [(''qty'', JNum 2)]),
              (''ids'', JArr [JStr ''a'', JStr ''b''] [])])))) = 1
   \<and> bulkUpdateOrderItem (scenario (answering JNull)) (request_by ''u1'' ''i1''
       (JObj [(''name'', JStr ''Widget''), (''data'', JObj [(''qty'', JNum 2)]),
              (''ids'', JArr [JStr ''a'', JStr ''b''] [])]))
      = (recordNotFound,
         [bulkUpdate (JObj []) (JObj [(''qty'', JNum 2), (''updatedBy'', JStr ''u1'')])])
   \<and> softDeleteManyOrderItem (scenario (answering JNull)) (request_by ''u1'' ''i1''
       (JObj [(''name'', JStr ''Widget''), (''data'', JObj [(''qty'', JNum 2)]),
              (''ids'', JArr [JStr ''a'', JStr ''b''] [])]))
      = (recordNotFound,
         [bulkUpdate (JObj [(''_id'', JObj [(''$in'', JArr [JStr ''a'', JStr ''b''] [])])])
            (JObj [(''isDeleted'', JBool True)])])"
  using not_found_on_no_match [of
      "request_by ''u1'' ''i1''
         (JObj [(''name'', JStr ''Widget''), (''data'', JObj [(''qty'', JNum 2)]),
                (''ids'', JArr [JStr ''a'', JStr ''b''] [])])"
      "JStr ''i1''" "scenario (answering JNull)"
      "JObj [(''name'', JStr ''Widget''), (''data'', JObj [(''qty'', JNum 2)]),
             (''ids'', JArr [JStr ''a'', JStr ''b''] [])]"
      "JObj [(''name'', JStr ''Widget''), (''data'', JObj [(''qty'', JNum 2)]),
             (''ids'', JArr [JStr ''a'', JStr ''b''] [])]"
      "JStr ''u1''" "JObj [(''qty'', JNum 2)]" "JStr ''a''" "[JStr ''b'']" "[]"]
  by (simp add: softDeleteOrderItem_def softDeleteOrderItem_try_def deleteOrderItem_def
        deleteOrderItem_try_def partialUpdateOrderItem_def partialUpdateOrderItem_try_def
        updateOrderItem_def updateOrderItem_try_def bulkUpdateOrderItem_def
        bulkUpdateOrderItem_try_def softDeleteManyOrderItem_def softDeleteManyOrderItem_try_def
        catch_bare_def catch_message_def catch_store_def
        scenario_defs get_prop_def Let_def spread_def AList.delete_eq await_def)

section \<open>Get one checks the identifier first\<close>

text \<open>
  Claim C6, as stated, fails: it promises the invalid-id response, and no call, for
  every path parameter that is not a 24-character identifier. The handler asks the
  driver's \<^verbatim>\<open>ObjectID.isValid\<close> (line 316), which also accepts any string of 12
  characters: for the id \<^verbatim>\<open>abcdefghijkl\<close> the handler queries the store and answers
  with what the query gives.
\<close>

theorem get_one_counterexample:
  "length ''abcdefghijkl'' \<noteq> 24
   \<and> ObjectID_isValid (scenario (answering JNull)) (JStr ''abcdefghijkl'')
   \<and> getOrderItem (scenario (answering JNull)) (request_by ''u1'' ''abcdefghijkl'' (JObj []))
      = (recordNotFound, [getSingleDocument (JObj [(''_id'', JStr ''abcdefghijkl'')]) (JObj [])])
   \<and> fst (getOrderItem (scenario (answering JNull)) (request_by ''u1'' ''abcdefghijkl'' (JObj [])))
      \<noteq> invalidObjectId
   \<and> snd (getOrderItem (scenario (answering JNull)) (request_by ''u1'' ''abcdefghijkl'' (JObj [])))
      \<noteq> []"
  by (simp add: getOrderItem_def getOrderItem_try_def catch_message_def scenario_defs
        get_prop_def Let_def await_def)

text \<open>
  Claim C6, amended. Let the path parameter \<^verbatim>\<open>req.params.id\<close> be a string \<open>s\<close>, on
  which the identifier check is that of the driver. If \<open>s\<close> is neither 12 characters
  long nor 24 hexadecimal digits, \<open>getOrderItem\<close> returns the invalid-id response and
  makes no call to the data-access layer. If \<open>s\<close> is 24 hexadecimal digits, or any 12
  characters, it makes the one query for the document with that \<^verbatim>\<open>_id\<close>, and answers
  a returned record with \<^verbatim>\<open>ok\<close> and a returned no-match value with the not-found
  response.
\<close>

theorem get_one_checks_id:
  assumes "get_prop (params req) ''id'' = Inr (JStr s)"
      and "ObjectID_isValid E (JStr s) = driver_isValid (JStr s)"
      and "c = getSingleDocument (JObj [(''_id'', JStr s)]) (JObj [])"
  shows "(length s \<noteq> 12 \<and> \<not> (length s = 24 \<and> list_all is_hex s)
            \<longrightarrow> getOrderItem E req = (invalidObjectId, []))
       \<and> (length s = 12 \<or> (length s = 24 \<and> list_all is_hex s)
            \<longrightarrow> snd (getOrderItem E req) = [c]
              \<and> (\<forall>result. dbService E c = Inr result \<longrightarrow>
                    fst (getOrderItem E req) = (if truthy result then ok result else recordNotFound)))"
  using assms
  by (auto simp: getOrderItem_def getOrderItem_try_def catch_message_def Let_def
        returns_def throws_def await_def split: sum.splits if_splits)

theorem get_one_checks_id_witness:
  "get_prop (params (request_by ''u1'' ''abc'' (JObj []))) ''id'' = Inr (JStr ''abc'')
   \<and> ObjectID_isValid (scenario (answering JNull)) (JStr ''abc'') = driver_isValid (JStr ''abc'')
   \<and> length ''abc'' \<noteq> 12 \<and> length ''abc'' \<noteq> 24
   \<and> getOrderItem (scenario (answering JNull)) (request_by ''u1'' ''abc'' (JObj []))
      = (invalidObjectId, [])
   \<and> get_prop (params (request_by ''u1'' ''0123456789abcdef01234567'' (JObj []))) ''id''
      = Inr (JStr ''0123456789abcdef01234567'')
   \<and> ObjectID_isValid (scenario (answering JNull)) (JStr ''0123456789abcdef01234567'')
      = driver_isValid (JStr ''0123456789abcdef01234567'')
   \<and> length ''0123456789abcdef01234567'' = 24 \<and> list_all is_hex ''0123456789abcdef01234567''
   \<and> getOrderItem (scenario (answering JNull))
        (request_by ''u1'' ''0123456789abcdef01234567'' (JObj []))
      = (recordNotFound,
         [getSingleDocument (JObj [(''_id'', JStr ''0123456789abcdef01234567'')]) (JObj [])])"
  using get_one_checks_id [of "request_by ''u1'' ''abc'' (JObj [])" "''abc''"
          "scenario (answering JNull)"
          "getSingleDocument (JObj [(''_id'', JStr ''abc'')]) (JObj [])"]
        get_one_checks_id [of "request_by ''u1'' ''0123456789abcdef01234567'' (JObj [])"
          "''0123456789abcdef01234567''" "scenario (answering JNull)"
          "getSingleDocument (JObj [(''_id'', JStr ''0123456789abcdef01234567'')]) (JObj [])"]
  by (simp add: scenario_defs get_prop_def prod_eq_iff is_hex_def)

section \<open>Count only\<close>

text \<open>
  Claim C8. When the body of a \<open>findAllOrderItem\<close> request passes the filter validation
  and its \<^verbatim>\<open>isCountOnly\<close> flag is truthy, the handler makes the one call
  \<open>countDocument\<close> on the query built from \<^verbatim>\<open>req.body.query\<close>, answers
  \<^verbatim>\<open>ok\<close> with the data \<^verbatim>\<open>{ totalRecords: n }\<close> where \<open>n\<close> is what that call returns,
  and never calls \<open>getAllDocuments\<close>.
\<close>

theorem count_only:
  assumes "isValid (validateFilterWithJoi E (body req) findFilterKeys True)"
      and "get_prop (body req) ''isCountOnly'' = Inr flag"
      and "truthy flag"
      and "query = (if is_object (prop_of (body req) ''query'')
                    then JObj (spread [] (prop_of (body req) ''query'')) else JObj [])"
  shows "snd (findAllOrderItem E req) = [countDocument query]
       \<and> (\<forall>n. dbService E (countDocument query) = Inr n \<longrightarrow>
             fst (findAllOrderItem E req) = ok (JObj [(''totalRecords'', n)]))
       \<and> (\<forall>q opts. getAllDocuments q opts \<notin> set (snd (findAllOrderItem E req)))"
  using assms
  by (auto simp: findAllOrderItem_def findAllOrderItem_try_def catch_message_def Let_def
        get_prop_def returns_def throws_def await_def split: sum.splits if_splits)

theorem count_only_witness:
  "isValid (validateFilterWithJoi (scenario (answering (JNum 3)))
      (body (request_by ''u1'' ''i1''
         (JObj [(''query'', JObj [(''status'', JStr ''open'')]), (''isCountOnly'', JBool True)])))
      findFilterKeys True)
   \<and> get_prop (body (request_by ''u1'' ''i1''
         (JObj [(''query'', JObj [(''status'', JStr ''open'')]), (''isCountOnly'', JBool True)])))
        ''isCountOnly'' = Inr (JBool True)
   \<and> truthy (JBool True)
   \<and> findAllOrderItem (scenario (answering (JNum 3)))
        (request_by ''u1'' ''i1''
           (JObj [(''query'', JObj [(''status'', JStr ''open'')]), (''isCountOnly'', JBool True)]))
      = (ok (JObj [(''totalRecords'', JNum 3)]), [countDocument (JObj [(''status'', JStr ''open'')])])"
  using count_only [of "scenario (answering (JNum 3))"
      "request_by ''u1'' ''i1''
         (JObj [(''query'', JObj [(''status'', JStr ''open'')]), (''isCountOnly'', JBool True)])"
      "JBool True" "JObj [(''status'', JStr ''open'')]"]
  by (simp add: scenario_defs get_prop_def spread_def prod_eq_iff)

section \<open>Update payloads carry the caller's identity\<close>

text \<open>
  The names \<^verbatim>\<open>addedBy\<close> and \<^verbatim>\<open>updatedBy\<close> are not indices: the key of an element
  is written in decimal digits.
\<close>

lemma digit_char_in: "n < 10 \<Longrightarrow> digit_char n \<in> set ''0123456789''"
  unfolding digit_char_def by (rule nth_mem) simp

lemma show_nat_digits: "set (show_nat n) \<subseteq> set ''0123456789''"
proof (induction n rule: show_nat.induct)
  case (1 n)
  show ?case
  proof (cases "n < 10")
    case True
    then show ?thesis using digit_char_in [of n] by (subst show_nat.simps) simp
  next
    case False
    then have "set (show_nat (n div 10)) \<subseteq> set ''0123456789''" using 1 by simp
    moreover have "digit_char (n mod 10) \<in> set ''0123456789''" by (rule digit_char_in) simp
    ultimately show ?thesis using False by (subst show_nat.simps) simp
  qed
qed

lemma indexed_keys: "k \<in> fst ` set (indexed xs) \<Longrightarrow> set k \<subseteq> set ''0123456789''"
proof -
  assume "k \<in> fst ` set (indexed xs)"
  then have "k \<in> set (map show_nat [0 ..< length xs])"
    unfolding indexed_def by (auto dest: set_zip_leftD)
  then show ?thesis using show_nat_digits by auto
qed

lemma stamp_names_not_indexed [simp]:
  "''updatedBy'' \<notin> fst ` set (indexed xs)" "''addedBy'' \<notin> fst ` set (indexed xs)"
  using indexed_keys [of "''updatedBy''" xs] indexed_keys [of "''addedBy''" xs] by auto

lemma stamp_names_not_indexed_pair [simp]:
  "(''updatedBy'', x) \<notin> set (indexed xs)" "(''addedBy'', x) \<notin> set (indexed xs)"
  using stamp_names_not_indexed [of xs] by (force simp: image_iff)+

lemma map_of_fold_update_other:
  "k \<notin> fst ` set ps \<Longrightarrow> map_of (fold (\<lambda>(k, x). AList.update k x) ps acc) k = map_of acc k"
  by (induction ps arbitrary: acc) (auto simp: update_conv')

lemma map_of_spread_other:
  "k \<notin> fst ` set (own_props v) \<Longrightarrow> map_of (spread acc v) k = map_of acc k"
  unfolding spread_def by (rule map_of_fold_update_other)

lemma deleted_twice:
  assumes "delete_prop b ''addedBy'' = Inr b1" and "delete_prop b1 ''updatedBy'' = Inr b2"
  shows "''addedBy'' \<notin> fst ` set (own_props b2) \<and> ''updatedBy'' \<notin> fst ` set (own_props b2)"
  using assms by (cases b) (auto simp: AList.delete_eq)

lemma fields_of_update:
  assumes "delete_prop b ''addedBy'' = Inr b1" and "delete_prop b1 ''updatedBy'' = Inr b2"
  shows "map_of (spread [(''updatedBy'', uid)] b2) ''updatedBy'' = Some uid"
    and "map_of (spread [(''updatedBy'', uid)] b2) ''addedBy'' = None"
  using deleted_twice [OF assms] by (simp_all add: map_of_spread_other)

text \<open>
  Claim C1. For each update operation (\<open>partialUpdateOrderItem\<close>, \<open>updateOrderItem\<close>,
  \<open>bulkUpdateOrderItem\<close>) and every request, whatever the client put in the body: every
  call made to the data-access layer carries as update data an object that has no
  \<^verbatim>\<open>addedBy\<close> property and whose \<^verbatim>\<open>updatedBy\<close> is the caller's identity
  \<^verbatim>\<open>req.user.id\<close>. And the call is made: the two updates by id, on a body and an
  identity that can be read, a payload that passes the validation and a readable path
  parameter, make the one call \<open>findOneAndUpdateDocument\<close> with such data; the bulk
  update, on a \<^verbatim>\<open>data\<close> field that is an object and a readable identity, makes the one
  call \<open>bulkUpdate\<close> with such data. A client-supplied \<^verbatim>\<open>addedBy\<close> or \<^verbatim>\<open>updatedBy\<close>
  never reaches the store.
\<close>

theorem update_data_stamped:
  "(op \<in> {PartialUpdateOrderItem, UpdateOrderItem, BulkUpdateOrderItem}
      \<and> c \<in> set (snd (handler op E req))
     \<longrightarrow> (\<exists>fields uid. update_body c = Some (JObj fields)
            \<and> get_prop (user req) ''id'' = Inr uid
            \<and> map_of fields ''updatedBy'' = Some uid
            \<and> map_of fields ''addedBy'' = None))
   \<and> (delete_prop (body req) ''addedBy'' = Inr b1 \<and> delete_prop b1 ''updatedBy'' = Inr b2
      \<and> get_prop (user req) ''id'' = Inr uid
      \<and> isValid (validateParamsWithJoi E (JObj (spread [(''updatedBy'', uid)] b2)) updateSchemaKeys)
      \<and> get_prop (params req) ''id'' = Inr i
     \<longrightarrow> (\<exists>fields.
            snd (partialUpdateOrderItem E req)
              = [findOneAndUpdateDocument (JObj [(''_id'', i)]) (JObj fields) (JObj [(''new'', JBool True)])]
          \<and> snd (updateOrderItem E req)
              = [findOneAndUpdateDocument (JObj [(''_id'', i)]) (JObj fields) (JObj [(''new'', JBool True)])]
          \<and> map_of fields ''updatedBy'' = Some uid
          \<and> map_of fields ''addedBy'' = None))
   \<and> (get_prop (body req) ''data'' = Inr d \<and> is_object d \<and> get_prop (user req) ''id'' = Inr uid
     \<longrightarrow> (\<exists>filter' fields.
            snd (bulkUpdateOrderItem E req) = [bulkUpdate filter' (JObj fields)]
          \<and> map_of fields ''updatedBy'' = Some uid
          \<and> map_of fields ''addedBy'' = None))"
proof (intro conjI impI)
  assume a: "op \<in> {PartialUpdateOrderItem, UpdateOrderItem, BulkUpdateOrderItem}
      \<and> c \<in> set (snd (handler op E req))"
  then consider "op = PartialUpdateOrderItem" | "op = UpdateOrderItem" | "op = BulkUpdateOrderItem"
    by auto
  then show "\<exists>fields uid. update_body c = Some (JObj fields)
            \<and> get_prop (user req) ''id'' = Inr uid
            \<and> map_of fields ''updatedBy'' = Some uid
            \<and> map_of fields ''addedBy'' = None"
  proof cases
    case 1
    with a show ?thesis
      by (auto simp: partialUpdateOrderItem_def partialUpdateOrderItem_try_def Let_def
            fields_of_update split: sum.splits if_splits)
  next
    case 2
    with a show ?thesis
      by (auto simp: updateOrderItem_def updateOrderItem_try_def Let_def
            fields_of_update split: sum.splits if_splits)
  next
    case 3
    with a show ?thesis
      by (auto simp: bulkUpdateOrderItem_def bulkUpdateOrderItem_try_def Let_def
            update_conv' delete_conv' split: sum.splits if_splits)
  qed
next
  assume a: "delete_prop (body req) ''addedBy'' = Inr b1 \<and> delete_prop b1 ''updatedBy'' = Inr b2
      \<and> get_prop (user req) ''id'' = Inr uid
      \<and> isValid (validateParamsWithJoi E (JObj (spread [(''updatedBy'', uid)] b2)) updateSchemaKeys)
      \<and> get_prop (params req) ''id'' = Inr i"
  then have f: "map_of (spread [(''updatedBy'', uid)] b2) ''updatedBy'' = Some uid"
      "map_of (spread [(''updatedBy'', uid)] b2) ''addedBy'' = None"
    using fields_of_update [of "body req" b1 b2 uid] by simp_all
  show "\<exists>fields.
            snd (partialUpdateOrderItem E req)
              = [findOneAndUpdateDocument (JObj [(''_id'', i)]) (JObj fields) (JObj [(''new'', JBool True)])]
          \<and> snd (updateOrderItem E req)
              = [findOneAndUpdateDocument (JObj [(''_id'', i)]) (JObj fields) (JObj [(''new'', JBool True)])]
          \<and> map_of fields ''updatedBy'' = Some uid
          \<and> map_of fields ''addedBy'' = None"
    using a f
    by (intro exI [of _ "spread [(''updatedBy'', uid)] b2"])
       (simp add: partialUpdateOrderItem_def partialUpdateOrderItem_try_def updateOrderItem_def
          updateOrderItem_try_def Let_def)
next
  assume a: "get_prop (body req) ''data'' = Inr d \<and> is_object d \<and> get_prop (user req) ''id'' = Inr uid"
  show "\<exists>filter' fields.
            snd (bulkUpdateOrderItem E req) = [bulkUpdate filter' (JObj fields)]
          \<and> map_of fields ''updatedBy'' = Some uid
          \<and> map_of fields ''addedBy'' = None"
    using a
    by (intro exI [of _ "if truthy (body req) \<and> is_object (prop_of (body req) ''filter'')
                         then JObj (spread [] (prop_of (body req) ''filter'')) else JObj []"]
              exI [of _ "AList.update ''updatedBy'' uid
                           (AList.delete ''updatedBy'' (AList.delete ''addedBy'' (spread [] d)))"])
       (simp add: bulkUpdateOrderItem_def bulkUpdateOrderItem_try_def Let_def update_conv' delete_conv')
qed

theorem update_data_stamped_witness:
  "UpdateOrderItem \<in> {PartialUpdateOrderItem, UpdateOrderItem, BulkUpdateOrderItem}
   \<and> findOneAndUpdateDocument (JObj [(''_id'', JStr ''i1'')])
        (JObj [(''updatedBy'', JStr ''u1''), (''name'', JStr ''Widget'')]) (JObj [(''new'', JBool True)])
      \<in> set (snd (handler UpdateOrderItem (scenario (answering JNull))
           (request_by ''u1'' ''i1''
              (JObj [(''addedBy'', JStr ''attacker''), (''name'', JStr ''Widget''),
                     (''updatedBy'', JStr ''attacker'')]))))
   \<and> delete_prop (body (request_by ''u1'' ''i1''
              (JObj [(''addedBy'', JStr ''attacker''), (''name'', JStr ''Widget''),
                     (''updatedBy'', JStr ''attacker'')]))) ''addedBy''
      = Inr (JObj [(''name'', JStr ''Widget''), (''updatedBy'', JStr ''attacker'')])
   \<and> delete_prop (JObj [(''name'', JStr ''Widget''), (''updatedBy'', JStr ''attacker'')]) ''updatedBy''
      = Inr (JObj [(''name'', JStr ''Widget'')])
   \<and> get_prop (user (request_by ''u1'' ''i1''
              (JObj [(''addedBy'', JStr ''attacker''), (''name'', JStr ''Widget''),
                     (''updatedBy'', JStr ''attacker'')]))) ''id'' = Inr (JStr ''u1'')
   \<and> isValid (validateParamsWithJoi (scenario (answering JNull))
        (JObj (spread [(''updatedBy'', JStr ''u1'')] (JObj [(''name'', JStr ''Widget'')]))) updateSchemaKeys)
   \<and> get_prop (params (request_by ''u1'' ''i1''
              (JObj [(''addedBy'', JStr ''attacker''), (''name'', JStr ''Widget''),
                     (''updatedBy'', JStr ''attacker'')]))) ''id'' = Inr (JStr ''i1'')
   \<and> snd (partialUpdateOrderItem (scenario (answering JNull))
           (request_by ''u1'' ''i1''
              (JObj [(''addedBy'', JStr ''attacker''), (''name'', JStr ''Widget''),
                     (''updatedBy'', JStr ''attacker'')])))
      = [findOneAndUpdateDocument (JObj [(''_id'', JStr ''i1'')])
           (JObj [(''updatedBy'', JStr ''u1''), (''name'', JStr ''Widget'')]) (JObj [(''new'', JBool True)])]
   \<and> snd (updateOrderItem (scenario (answering JNull))
           (request_by ''u1'' ''i1''
              (JObj [(''addedBy'', JStr ''attacker''), (''name'', JStr ''Widget''),
                     (''updatedBy'', JStr ''attacker'')])))
      = [findOneAndUpdateDocument (JObj [(''_id'', JStr ''i1'')])
           (JObj [(''updatedBy'', JStr ''u1''), (''name'', JStr ''Widget'')]) (JObj [(''new'', JBool True)])]
   \<and> get_prop (body (request_by ''u1'' ''i1''
              (JObj [(''filter'', JObj [(''status'', JStr ''open'')]),
                     (''data'', JObj [(''addedBy'', JStr ''attacker''), (''qty'', JNum 2),
                                      (''updatedBy'', JStr ''attacker'')])]))) ''data''
      = Inr (JObj [(''addedBy'', JStr ''attacker''), (''qty'', JNum 2), (''updatedBy'', JStr ''attacker'')])
   \<and> is_object (JObj [(''addedBy'', JStr ''attacker''), (''qty'', JNum 2), (''updatedBy'', JStr ''attacker'')])
   \<and> snd (bulkUpdateOrderItem (scenario (answering JNull))
           (request_by ''u1'' ''i1''
              (JObj [(''filter'', JObj [(''status'', JStr ''open'')]),
                     (''data'', JObj [(''addedBy'', JStr ''attacker''), (''qty'', JNum 2),
                                      (''updatedBy'', JStr ''attacker'')])])))
      = [bulkUpdate (JObj [(''status'', JStr ''open'')])
           (JObj [(''qty'', JNum 2), (''updatedBy'', JStr ''u1'')])]"
  using update_data_stamped [of UpdateOrderItem
      "findOneAndUpdateDocument (JObj [(''_id'', JStr ''i1'')])
        (JObj [(''updatedBy'', JStr ''u1''), (''name'', JStr ''Widget'')]) (JObj [(''new'', JBool True)])"
      "scenario (answering JNull)"
      "request_by ''u1'' ''i1''
              (JObj [(''addedBy'', JStr ''attacker''), (''name'', JStr ''Widget''),
                     (''updatedBy'', JStr ''attacker'')])"
      "JObj [(''name'', JStr ''Widget''), (''updatedBy'', JStr ''attacker'')]"
      "JObj [(''name'', JStr ''Widget'')]" "JStr ''u1''" "JStr ''i1''" JNull]
    update_data_stamped [of BulkUpdateOrderItem
      "bulkUpdate (JObj [(''status'', JStr ''open'')]) (JObj [(''qty'', JNum 2), (''updatedBy'', JStr ''u1'')])"
      "scenario (answering JNull)"
      "request_by ''u1'' ''i1''
              (JObj [(''filter'', JObj [(''status'', JStr ''open'')]),
                     (''data'', JObj [(''addedBy'', JStr ''attacker''), (''qty'', JNum 2),
                                      (''updatedBy'', JStr ''attacker'')])])"
      JNull JNull "JStr ''u1''" "JStr ''i1''"
      "JObj [(''addedBy'', JStr ''attacker''), (''qty'', JNum 2), (''updatedBy'', JStr ''attacker'')]"]
  by (simp add: partialUpdateOrderItem_def partialUpdateOrderItem_try_def updateOrderItem_def
        updateOrderItem_try_def bulkUpdateOrderItem_def bulkUpdateOrderItem_try_def
        scenario_defs get_prop_def Let_def spread_def AList.delete_eq)

section \<open>Create payloads carry the caller's identity\<close>

lemma prop_of_set_prop:
  assumes "is_object x"
  shows "\<exists>y. set_prop x ''addedBy'' uid = Inr y \<and> is_object y \<and> prop_of y ''addedBy'' = uid"
  using assms
  by (cases x) (auto simp: update_conv' map_add_def split: option.splits dest: map_of_SomeD)

lemma stamp_all_objects:
  assumes "\<forall>x \<in> set xs. is_object x"
  shows "\<exists>ys. stamp_all xs uid = Inr ys \<and> length ys = length xs
              \<and> (\<forall>y \<in> set ys. prop_of y ''addedBy'' = uid)"
  using assms
proof (induction xs)
  case Nil
  then show ?case by simp
next
  case (Cons x xs)
  then obtain ys where ys: "stamp_all xs uid = Inr ys" "length ys = length xs"
      "\<forall>y \<in> set ys. prop_of y ''addedBy'' = uid"
    by auto
  from Cons.prems obtain y where y: "set_prop x ''addedBy'' uid = Inr y" "prop_of y ''addedBy'' = uid"
    using prop_of_set_prop [of x uid] by auto
  show ?case using ys y by simp
qed

text \<open>
  Claim C2. Create: when the payload passes the validation and the caller's identity
  \<^verbatim>\<open>req.user.id\<close> can be read, \<open>addOrderItem\<close> makes the one call \<open>createDocument\<close> on
  the document that the model constructs from fields whose \<^verbatim>\<open>addedBy\<close> is the caller's
  identity, whatever \<^verbatim>\<open>addedBy\<close> the body had. Bulk insert: when \<^verbatim>\<open>req.body.data\<close> is
  a nonempty array of objects and the caller's identity is present (truthy),
  \<open>bulkInsertOrderItem\<close> makes the one call \<open>bulkInsert\<close> on an array of the same
  length, every element of which has \<^verbatim>\<open>addedBy\<close> equal to the caller's identity.
\<close>

theorem create_stamps_addedBy:
  "(isValid (validateParamsWithJoi E (body req) schemaKeys) \<and> get_prop (user req) ''id'' = Inr uid
      \<longrightarrow> (\<exists>fields. snd (addOrderItem E req) = [createDocument (new_OrderItem E (JObj fields))]
              \<and> map_of fields ''addedBy'' = Some uid))
   \<and> (truthy (body req) \<and> prop_of (body req) ''data'' = JArr xs ps \<and> xs \<noteq> []
        \<and> (\<forall>x \<in> set xs. is_object x) \<and> get_prop (user req) ''id'' = Inr uid \<and> truthy uid
      \<longrightarrow> (\<exists>ys. snd (bulkInsertOrderItem E req) = [bulkInsert (JArr ys ps)]
              \<and> length ys = length xs
              \<and> (\<forall>y \<in> set ys. prop_of y ''addedBy'' = uid)))"
proof (intro conjI impI)
  assume "isValid (validateParamsWithJoi E (body req) schemaKeys) \<and> get_prop (user req) ''id'' = Inr uid"
  then show "\<exists>fields. snd (addOrderItem E req) = [createDocument (new_OrderItem E (JObj fields))]
              \<and> map_of fields ''addedBy'' = Some uid"
    by (intro exI [of _ "AList.update ''addedBy'' uid (spread [] (body req))"])
       (simp add: addOrderItem_def addOrderItem_try_def Let_def update_conv')
next
  assume a: "truthy (body req) \<and> prop_of (body req) ''data'' = JArr xs ps \<and> xs \<noteq> []
        \<and> (\<forall>x \<in> set xs. is_object x) \<and> get_prop (user req) ''id'' = Inr uid \<and> truthy uid"
  then obtain ys where ys: "stamp_all xs uid = Inr ys" "length ys = length xs"
      "\<forall>y \<in> set ys. prop_of y ''addedBy'' = uid"
    using stamp_all_objects [of xs uid] by auto
  from a have "\<not> is_nullish (body req)" by (cases "body req") auto
  with a ys show "\<exists>ys. snd (bulkInsertOrderItem E req) = [bulkInsert (JArr ys ps)]
              \<and> length ys = length xs \<and> (\<forall>y \<in> set ys. prop_of y ''addedBy'' = uid)"
    by (simp add: bulkInsertOrderItem_def bulkInsertOrderItem_try_def get_prop_def)
qed

theorem create_stamps_addedBy_witness:
  "isValid (validateParamsWithJoi (scenario (answering (JStr ''saved'')))
      (body (request_by ''u1'' ''i1'' (JObj [(''name'', JStr ''Widget''), (''addedBy'', JStr ''attacker'')])))
      schemaKeys)
   \<and> get_prop (user (request_by ''u1'' ''i1''
        (JObj [(''name'', JStr ''Widget''), (''addedBy'', JStr ''attacker'')]))) ''id'' = Inr (JStr ''u1'')
   \<and> snd (addOrderItem (scenario (answering (JStr ''saved'')))
        (request_by ''u1'' ''i1'' (JObj [(''name'', JStr ''Widget''), (''addedBy'', JStr ''attacker'')])))
      = [createDocument (JObj [(''name'', JStr ''Widget''), (''addedBy'', JStr ''u1'')])]
   \<and> truthy (body (request_by ''u1'' ''i1''
        (JObj [(''data'', JArr [JObj [(''name'', JStr ''A''), (''addedBy'', JStr ''attacker'')],
                                JObj [(''name'', JStr ''B'')]] [])])))
   \<and> is_object (JObj [(''name'', JStr ''A''), (''addedBy'', JStr ''attacker'')])
   \<and> is_object (JObj [(''name'', JStr ''B'')])
   \<and> truthy (JStr ''u1'')
   \<and> snd (bulkInsertOrderItem (scenario (answering (JStr ''saved'')))
        (request_by ''u1'' ''i1''
          (JObj [(''data'', JArr [JObj [(''name'', JStr ''A''), (''addedBy'', JStr ''attacker'')],
                                  JObj [(''name'', JStr ''B'')]] [])])))
      = [bulkInsert (JArr [JObj [(''name'', JStr ''A''), (''addedBy'', JStr ''u1'')],
                           JObj [(''name'', JStr ''B''), (''addedBy'', JStr ''u1'')]] [])]"
  using create_stamps_addedBy [of "scenario (answering (JStr ''saved''))"
      "request_by ''u1'' ''i1'' (JObj [(''name'', JStr ''Widget''), (''addedBy'', JStr ''attacker'')])"
      "JStr ''u1''" "[]" "[]"]
    create_stamps_addedBy [of "scenario (answering (JStr ''saved''))"
      "request_by ''u1'' ''i1''
          (JObj [(''data'', JArr [JObj [(''name'', JStr ''A''), (''addedBy'', JStr ''attacker'')],
                                  JObj [(''name'', JStr ''B'')]] [])])"
      "JStr ''u1''"
      "[JObj [(''name'', JStr ''A''), (''addedBy'', JStr ''attacker'')], JObj [(''name'', JStr ''B'')]]"
      "[]"]
  by (simp add: addOrderItem_def addOrderItem_try_def bulkInsertOrderItem_def
        bulkInsertOrderItem_try_def scenario_defs get_prop_def Let_def spread_def)

section \<open>One round trip to the store\<close>

lemma one_round_trip_simps [simp]:
  "one_round_trip E (returns r) = is_rejection r"
  "one_round_trip E (throws e)"
  "one_round_trip E (await E c k) = (\<forall>v. dbService E c = Inr v \<longrightarrow> \<not> is_rejection (k v))"
  by (auto simp: one_round_trip_def returns_def throws_def await_def split: sum.splits)

lemma attempt_shape: "one_round_trip E (try_block op E req)"
  by (cases op) (simp_all add: try_defs Let_def split: sum.splits)

lemma catch_not_rejection:
  "snd a = Inl e \<Longrightarrow> \<not> is_rejection (fst (catch_message a))"
  "snd a = Inl e \<Longrightarrow> \<not> is_rejection (fst (catch_bare a))"
  "snd a = Inl e \<Longrightarrow> \<not> is_rejection (fst (catch_store E a))"
  by (simp_all add: catch_message_def catch_bare_def catch_store_def)

lemma catch_returned:
  "snd a = Inr r \<Longrightarrow> fst (catch_message a) = r"
  "snd a = Inr r \<Longrightarrow> fst (catch_bare a) = r"
  "snd a = Inr r \<Longrightarrow> fst (catch_store E a) = r"
  by (simp_all add: catch_message_def catch_bare_def catch_store_def)

lemma handler_response:
  "snd (try_block op E req) = Inr r \<Longrightarrow> fst (handler op E req) = r"
  by (cases op) (simp_all add: handler_defs catch_returned)

lemma handler_caught:
  "snd (try_block op E req) = Inl e \<Longrightarrow> \<not> is_rejection (fst (handler op E req))"
  by (cases op) (simp_all add: handler_defs catch_not_rejection)

text \<open>
  Claim C9, as stated, fails: it promises exactly one call to the data-access layer
  whenever validation and the pre-store checks pass. A bulk insert of
  \<^verbatim>\<open>{ data: [null] }\<close> passes the check of line 144 (the body is truthy, \<^verbatim>\<open>data\<close> is an
  array, its length is not below one), then the assignment
  \<^verbatim>\<open>data[0].addedBy = req.user.id\<close> throws a \<^verbatim>\<open>TypeError\<close>, and the catch block answers
  with the failure response: no call is made, and the response is none of bad
  request, invalid parameter, invalid id.
\<close>

theorem store_calls_counterexample:
  "truthy (body (request_by ''u1'' ''i1'' (JObj [(''data'', JArr [JNull] [])])))
   \<and> isArray (prop_of (body (request_by ''u1'' ''i1'' (JObj [(''data'', JArr [JNull] [])]))) ''data'')
   \<and> \<not> num_lt (prop_of (prop_of (body (request_by ''u1'' ''i1'' (JObj [(''data'', JArr [JNull] [])])))
          ''data'') ''length'') 1
   \<and> bulkInsertOrderItem (scenario (answering (JStr ''saved'')))
        (request_by ''u1'' ''i1'' (JObj [(''data'', JArr [JNull] [])]))
     = (failureResponse (Some (''Cannot set properties of null (setting '' @ quoted ''addedBy'' @ '')'')), [])
   \<and> \<not> is_rejection (fst (bulkInsertOrderItem (scenario (answering (JStr ''saved'')))
        (request_by ''u1'' ''i1'' (JObj [(''data'', JArr [JNull] [])]))))"
  by (simp add: bulkInsertOrderItem_def bulkInsertOrderItem_try_def catch_store_def scenario_defs
        get_prop_def Let_def TypeError_def is_duplicate_def throws_def)

text \<open>
  Claim C9, amended. For every handler and every request: at most one call to the
  data-access layer is made; none is made when the handler returns a bad-request,
  invalid-parameter or invalid-id response; and when none is made, either the handler
  returned one of these three responses or its try block threw before reaching the
  store. So exactly one call is made when validation and the pre-store checks pass and
  nothing throws before the call.
\<close>

theorem store_calls_per_request:
  "length (snd (handler op E req)) \<le> 1
   \<and> (is_rejection (fst (handler op E req)) \<longrightarrow> snd (handler op E req) = [])
   \<and> (snd (handler op E req) = [] \<longrightarrow>
        is_rejection (fst (handler op E req)) \<or> (\<exists>e. try_block op E req = ([], Inl e)))"
proof -
  obtain cs out where a: "try_block op E req = (cs, out)" by (cases "try_block op E req")
  have shape: "one_round_trip E (cs, out)" using attempt_shape [of E op req] a by simp
  show ?thesis
  proof (cases out)
    case (Inl e)
    then have "\<not> is_rejection (fst (handler op E req))"
      using handler_caught [of op E req e] a by simp
    with Inl a show ?thesis using try_block_calls [of op E req] by (simp add: handler_calls)
  next
    case (Inr r)
    then have "fst (handler op E req) = r" using handler_response [of op E req r] a by simp
    with Inr a shape show ?thesis
      by (cases cs) (auto simp: handler_calls one_round_trip_def split: list.splits)
  qed
qed

theorem store_calls_per_request_witness:
  "is_rejection (fst (handler DeleteManyOrderItem (scenario (answering JNull))
       (request_by ''u1'' ''i1'' (JObj [(''ids'', JArr [] [])]))))
   \<and> snd (handler DeleteManyOrderItem (scenario (answering JNull))
       (request_by ''u1'' ''i1'' (JObj [(''ids'', JArr [] [])]))) = []
   \<and> snd (handler BulkInsertOrderItem (scenario (answering (JStr ''saved'')))
        (request_by ''u1'' ''i1'' (JObj [(''data'', JArr [JNull] [])]))) = []
   \<and> try_block BulkInsertOrderItem (scenario (answering (JStr ''saved'')))
        (request_by ''u1'' ''i1'' (JObj [(''data'', JArr [JNull] [])]))
      = ([], Inl (TypeError (''Cannot set properties of null (setting '' @ quoted ''addedBy'' @ '')'')))
   \<and> length (snd (handler GetOrderItemCount (scenario (answering (JNum 3)))
       (request_by ''u1'' ''i1'' (JObj [])))) = 1"
  using store_calls_per_request [of DeleteManyOrderItem "scenario (answering JNull)"
      "request_by ''u1'' ''i1'' (JObj [(''ids'', JArr [] [])])"]
    store_calls_per_request [of BulkInsertOrderItem "scenario (answering (JStr ''saved''))"
      "request_by ''u1'' ''i1'' (JObj [(''data'', JArr [JNull] [])])"]
    store_calls_per_request [of GetOrderItemCount "scenario (answering (JNum 3))"
      "request_by ''u1'' ''i1'' (JObj [])"]
  by (simp add: deleteManyOrderItem_def deleteManyOrderItem_try_def bulkInsertOrderItem_def
        bulkInsertOrderItem_try_def getOrderItemCount_def getOrderItemCount_try_def
        catch_bare_def catch_store_def scenario_defs get_prop_def Let_def throws_def returns_def)

section \<open>The generic failure response\<close>

text \<open>
  Claim C3, as stated, fails: it names two operations whose failure response is bare
  (delete one, soft-delete many) and says that every other operation carries the
  message. \<open>deleteManyOrderItem\<close> is not one of the two, and on a store error that is
  neither a validation error nor a duplicate-key condition it returns the bare failure
  response (line 214), not the one carrying the message.
\<close>

theorem failure_message_counterexample:
  "snd (try_block DeleteManyOrderItem (scenario (failing (store_error ''MongoNetworkError'' JUndefined)))
          (request_by ''u1'' ''i1'' (JObj [(''ids'', JArr [JStr ''a''] [])])))
     = Inl (store_error ''MongoNetworkError'' JUndefined)
   \<and> err_name (store_error ''MongoNetworkError'' JUndefined) \<noteq> ''ValidationError''
   \<and> \<not> is_duplicate (scenario (failing (store_error ''MongoNetworkError'' JUndefined)))
        (store_error ''MongoNetworkError'' JUndefined)
   \<and> DeleteManyOrderItem \<notin> {DeleteOrderItem, SoftDeleteManyOrderItem}
   \<and> fst (handler DeleteManyOrderItem (scenario (failing (store_error ''MongoNetworkError'' JUndefined)))
          (request_by ''u1'' ''i1'' (JObj [(''ids'', JArr [JStr ''a''] [])])))
     = failureResponse None
   \<and> fst (handler DeleteManyOrderItem (scenario (failing (store_error ''MongoNetworkError'' JUndefined)))
          (request_by ''u1'' ''i1'' (JObj [(''ids'', JArr [JStr ''a''] [])])))
     \<noteq> failureResponse (Some (err_message (store_error ''MongoNetworkError'' JUndefined)))"
  by (simp add: deleteManyOrderItem_def deleteManyOrderItem_try_def catch_bare_def scenario_defs
        get_prop_def is_duplicate_def Let_def)

text \<open>
  Claim C3, amended. When a try block throws an error that is neither a validation
  error nor a duplicate-key condition, the handler returns the generic failure
  response: bare in the four operations \<open>softDeleteManyOrderItem\<close>,
  \<open>deleteManyOrderItem\<close>, \<open>softDeleteOrderItem\<close> and \<open>deleteOrderItem\<close>, and carrying
  the error message in the other eight.
\<close>

theorem failure_message_by_operation:
  assumes "snd (try_block op E req) = Inl e"
      and "err_name e \<noteq> ''ValidationError''"
      and "\<not> is_duplicate E e"
  shows "fst (handler op E req)
         = failureResponse
             (if op \<in> {SoftDeleteManyOrderItem, DeleteManyOrderItem, SoftDeleteOrderItem,
                         DeleteOrderItem}
              then None else Some (err_message e))"
  using assms
  by (cases op)
     (simp_all add: handler_defs catch_message_def catch_bare_def catch_store_def)

theorem failure_message_by_operation_witness:
  "snd (try_block SoftDeleteOrderItem (scenario (failing (store_error ''MongoNetworkError'' JUndefined)))
          (request_by ''u1'' ''i1'' (JObj [])))
     = Inl (store_error ''MongoNetworkError'' JUndefined)
   \<and> fst (handler SoftDeleteOrderItem (scenario (failing (store_error ''MongoNetworkError'' JUndefined)))
          (request_by ''u1'' ''i1'' (JObj [])))
     = failureResponse None
   \<and> snd (try_block GetOrderItemCount (scenario (failing (store_error ''MongoNetworkError'' JUndefined)))
          (request_by ''u1'' ''i1'' (JObj [])))
     = Inl (store_error ''MongoNetworkError'' JUndefined)
   \<and> fst (handler GetOrderItemCount (scenario (failing (store_error ''MongoNetworkError'' JUndefined)))
          (request_by ''u1'' ''i1'' (JObj [])))
     = failureResponse (Some ''store failed'')"
  using failure_message_by_operation [of SoftDeleteOrderItem
      "scenario (failing (store_error ''MongoNetworkError'' JUndefined))"
      "request_by ''u1'' ''i1'' (JObj [])" "store_error ''MongoNetworkError'' JUndefined"]
    failure_message_by_operation [of GetOrderItemCount
      "scenario (failing (store_error ''MongoNetworkError'' JUndefined))"
      "request_by ''u1'' ''i1'' (JObj [])" "store_error ''MongoNetworkError'' JUndefined"]
  by (simp add: softDeleteOrderItem_try_def getOrderItemCount_try_def scenario_defs
        get_prop_def is_duplicate_def Let_def)

section \<open>The duplicate response\<close>

text \<open>
  Claim C5, as stated, fails: it promises the duplicate response for every error with
  code 11000 that the data-access layer raises. The catch block tests the name of the
  error first (lines 34, 156, 297): an error named \<^verbatim>\<open>ValidationError\<close> gets the
  validation-failure response, also when its code is 11000.
\<close>

theorem duplicate_key_counterexample:
  "dbService (scenario (failing (store_error ''ValidationError'' (JNum 11000))))
      (createDocument (JObj [(''name'', JStr ''Widget''), (''addedBy'', JStr ''u1'')]))
     = Inl (store_error ''ValidationError'' (JNum 11000))
   \<and> err_code (store_error ''ValidationError'' (JNum 11000)) = JNum 11000
   \<and> addOrderItem (scenario (failing (store_error ''ValidationError'' (JNum 11000))))
        (request_by ''u1'' ''i1'' (JObj [(''name'', JStr ''Widget'')]))
     = (validationError ''Invalid Data, Validation Failed at store failed'',
        [createDocument (JObj [(''name'', JStr ''Widget''), (''addedBy'', JStr ''u1'')])])
   \<and> fst (addOrderItem (scenario (failing (store_error ''ValidationError'' (JNum 11000))))
        (request_by ''u1'' ''i1'' (JObj [(''name'', JStr ''Widget'')])))
     \<noteq> isDuplicate"
  by (simp add: addOrderItem_def addOrderItem_try_def catch_store_def scenario_defs
        get_prop_def Let_def spread_def await_def)

text \<open>
  Claim C5, amended. For \<open>addOrderItem\<close>, \<open>bulkInsertOrderItem\<close> and \<open>updateOrderItem\<close>:
  when the call made to the data-access layer raises an error with code 11000 whose
  name is not \<^verbatim>\<open>ValidationError\<close>, the handler returns the duplicate response
  \<^verbatim>\<open>isDuplicate()\<close>, not the generic failure response.
\<close>

theorem duplicate_key_response:
  assumes "op \<in> {AddOrderItem, BulkInsertOrderItem, UpdateOrderItem}"
      and "c \<in> set (snd (handler op E req))"
      and "dbService E c = Inl e"
      and "err_code e = JNum 11000"
      and "err_name e \<noteq> ''ValidationError''"
  shows "handler op E req = (isDuplicate, [c])"
proof -
  have calls: "fst (try_block op E req) = [c]"
    using assms(2) try_block_calls [of op E req]
    by (cases "fst (try_block op E req)") (auto simp: handler_calls)
  have "snd (try_block op E req) = Inl e"
    using attempt_shape [of E op req] calls assms(3)
    by (cases "snd (try_block op E req)") (auto simp: one_round_trip_def)
  moreover have "is_duplicate E e" using assms(4) by (simp add: is_duplicate_def)
  ultimately show ?thesis
    using assms(1,5) calls
    by (auto simp: handler_defs catch_store_def prod_eq_iff)
qed

theorem duplicate_key_response_witness:
  "AddOrderItem \<in> {AddOrderItem, BulkInsertOrderItem, UpdateOrderItem}
   \<and> createDocument (JObj [(''name'', JStr ''Widget''), (''addedBy'', JStr ''u1'')])
      \<in> set (snd (handler AddOrderItem (scenario (failing (store_error ''MongoServerError'' (JNum 11000))))
           (request_by ''u1'' ''i1'' (JObj [(''name'', JStr ''Widget'')]))))
   \<and> dbService (scenario (failing (store_error ''MongoServerError'' (JNum 11000))))
        (createDocument (JObj [(''name'', JStr ''Widget''), (''addedBy'', JStr ''u1'')]))
      = Inl (store_error ''MongoServerError'' (JNum 11000))
   \<and> err_code (store_error ''MongoServerError'' (JNum 11000)) = JNum 11000
   \<and> err_name (store_error ''MongoServerError'' (JNum 11000)) \<noteq> ''ValidationError''
   \<and> handler AddOrderItem (scenario (failing (store_error ''MongoServerError'' (JNum 11000))))
           (request_by ''u1'' ''i1'' (JObj [(''name'', JStr ''Widget'')]))
      = (isDuplicate, [createDocument (JObj [(''name'', JStr ''Widget''), (''addedBy'', JStr ''u1'')])])"
  using duplicate_key_response [of AddOrderItem
      "createDocument (JObj [(''name'', JStr ''Widget''), (''addedBy'', JStr ''u1'')])"
      "scenario (failing (store_error ''MongoServerError'' (JNum 11000)))"
      "request_by ''u1'' ''i1'' (JObj [(''name'', JStr ''Widget'')])"
      "store_error ''MongoServerError'' (JNum 11000)"]
  by (simp add: addOrderItem_def addOrderItem_try_def scenario_defs get_prop_def Let_def spread_def)

end
